theory Spec2Isabelle
  imports Main "HOL-Library.AList"
begin

section \<open>Go values shared by the two packages\<close>

text \<open>
  A Go call either returns or does not: a run-time panic (nil dereference, index out of
  range) and the run-time's fatal error on unlocking an unlocked mutex are \<open>Panic\<close>;
  a call that waits for a mutex another holder never releases is \<open>Blocks\<close>.
\<close>

datatype 'a outcome = Returned 'a | Panic | Blocks

text \<open>The canonical gRPC status codes (\<open>google.golang.org/grpc/codes\<close>).\<close>

datatype codes =
    OK | Canceled | Unknown | InvalidArgument | DeadlineExceeded | NotFound
  | AlreadyExists | PermissionDenied | ResourceExhausted | FailedPrecondition
  | Aborted | OutOfRange | Unimplemented | Internal | Unavailable | DataLoss
  | Unauthenticated

text \<open>
  Go errors. \<open>APIError c m\<close> is an \<open>*apierror.APIError\<close> whose \<open>GRPCStatus().Code()\<close>
  is \<open>c\<close>; \<open>ErrorNew m\<close> is \<open>errors.New(m)\<close> or \<open>fmt.Errorf\<close> of a message with
  no \<open>%w\<close>, and stands for every error of a collaborator that is no API error;
  \<open>Errorf f e\<close> is \<open>fmt.Errorf(f, e)\<close> with format \<open>f\<close> wrapping \<open>e\<close> by \<open>%w\<close>.
\<close>

datatype error = APIError codes string | ErrorNew string | Errorf string error

text \<open>\<open>errors.As(err, &gErr)\<close> for \<open>gErr *apierror.APIError\<close>: the first API error of the chain.\<close>

fun errors_As_APIError :: "error \<Rightarrow> codes option" where
  "errors_As_APIError (APIError c m) = Some c"
| "errors_As_APIError (ErrorNew m) = None"
| "errors_As_APIError (Errorf f e) = errors_As_APIError e"

subsection \<open>Package \<open>strings\<close>\<close>

definition HasPrefix :: "string \<Rightarrow> string \<Rightarrow> bool" where
  "HasPrefix s p = (length p \<le> length s \<and> take (length p) s = p)"

definition HasSuffix :: "string \<Rightarrow> string \<Rightarrow> bool" where
  "HasSuffix s p = (length p \<le> length s \<and> drop (length s - length p) s = p)"

definition TrimPrefix :: "string \<Rightarrow> string \<Rightarrow> string" where
  "TrimPrefix s p = (if HasPrefix s p then drop (length p) s else s)"

definition TrimSuffix :: "string \<Rightarrow> string \<Rightarrow> string" where
  "TrimSuffix s p = (if HasSuffix s p then take (length s - length p) s else s)"

text \<open>\<open>strings.Split(s, sep)\<close> for a separator of one byte, as the call site has it.\<close>

fun Split :: "string \<Rightarrow> char \<Rightarrow> string list" where
  "Split [] sep = [[]]"
| "Split (c # cs) sep =
     (if c = sep then [] # Split cs sep
      else (case Split cs sep of [] \<Rightarrow> [[c]] | p # ps \<Rightarrow> (c # p) # ps))"

text \<open>\<open>strings.Index(s, sep)\<close> for a separator of one byte: \<open>-1\<close> when it is absent.\<close>

fun Index :: "string \<Rightarrow> char \<Rightarrow> int" where
  "Index [] sep = -1"
| "Index (c # cs) sep =
     (if c = sep then 0 else (let i = Index cs sep in if i < 0 then -1 else i + 1))"

text \<open>\<open>strings.ReplaceAll(s, old, new)\<close> for \<open>old\<close> of one byte.\<close>

definition ReplaceAll :: "string \<Rightarrow> char \<Rightarrow> string \<Rightarrow> string" where
  "ReplaceAll s old new = concat (map (\<lambda>c. if c = old then new else [c]) s)"

section \<open>Package \<open>secretmanager\<close>: the GCP Secret Manager provider\<close>

subsection \<open>The Secret Manager client\<close>

text \<open>The messages of \<open>secretmanagerpb\<close> that the provider reads or builds. A nil
  pointer, a nil map entry and a nil byte slice are \<open>None\<close>; bytes are a \<open>string\<close>.\<close>

datatype Replication = Replication_Automatic | Replication_UserManaged

record Secret =
  secret_Name :: string
  secret_Labels :: "string \<rightharpoonup> string"
  secret_Replication :: "Replication option"

record SecretPayload =
  payload_Data :: "string option"

record AccessSecretVersionResponse =
  asv_Name :: string
  asv_Payload :: "SecretPayload option"

record CreateSecretRequest =
  csr_Parent :: string
  csr_SecretId :: string
  csr_Secret :: Secret

record AddSecretVersionRequest =
  avr_Parent :: string
  avr_Payload :: SecretPayload

record ListSecretsRequest =
  lsr_Parent :: string
  lsr_Filter :: string

text \<open>
  The interface \<open>GoogleSecretManagerClient\<close>. The vendor's client is no code of the
  provider, so every method is a parameter: a function of the request and of the state
  \<open>'c\<close> of the remote, giving the Go results and the next state. \<open>ListSecrets\<close> gives its
  iterator as the list of what the successive \<open>it.Next()\<close> return, \<open>Inr\<close> a secret's name and
  \<open>Inl\<close> an error other than \<open>iterator.Done\<close>; the end of the list is \<open>iterator.Done\<close>.
  \<open>AddSecretVersion\<close> gives only its error: the provider drops the version it returns.
\<close>

record 'c GoogleSecretManagerClient =
  smc_AccessSecretVersion ::
    "string \<Rightarrow> 'c \<Rightarrow> (AccessSecretVersionResponse option \<times> error option) \<times> 'c"
  smc_ListSecrets :: "ListSecretsRequest \<Rightarrow> 'c \<Rightarrow> (error + string) list \<times> 'c"
  smc_AddSecretVersion :: "AddSecretVersionRequest \<Rightarrow> 'c \<Rightarrow> error option \<times> 'c"
  smc_CreateSecret :: "CreateSecretRequest \<Rightarrow> 'c \<Rightarrow> (Secret option \<times> error option) \<times> 'c"
  smc_Close :: "'c \<Rightarrow> error option \<times> 'c"
  smc_GetSecret :: "string \<Rightarrow> 'c \<Rightarrow> (Secret option \<times> error option) \<times> 'c"

text \<open>The calls a run makes on the client, in order, and the state of the remote.\<close>

datatype call =
    AccessSecretVersion_call string
  | ListSecrets_call ListSecretsRequest
  | AddSecretVersion_call AddSecretVersionRequest
  | CreateSecret_call CreateSecretRequest
  | Close_call
  | GetSecret_call string

record 'c remote =
  calls :: "call list"
  client_state :: 'c

definition call_AccessSecretVersion ::
  "'c GoogleSecretManagerClient \<Rightarrow> string \<Rightarrow> 'c remote
     \<Rightarrow> (AccessSecretVersionResponse option \<times> error option) \<times> 'c remote" where
  "call_AccessSecretVersion cl name r =
     (case smc_AccessSecretVersion cl name (client_state r) of
        (res, c) \<Rightarrow> (res, \<lparr>calls = calls r @ [AccessSecretVersion_call name], client_state = c\<rparr>))"

definition call_ListSecrets ::
  "'c GoogleSecretManagerClient \<Rightarrow> ListSecretsRequest \<Rightarrow> 'c remote
     \<Rightarrow> (error + string) list \<times> 'c remote" where
  "call_ListSecrets cl req r =
     (case smc_ListSecrets cl req (client_state r) of
        (res, c) \<Rightarrow> (res, \<lparr>calls = calls r @ [ListSecrets_call req], client_state = c\<rparr>))"

definition call_AddSecretVersion ::
  "'c GoogleSecretManagerClient \<Rightarrow> AddSecretVersionRequest \<Rightarrow> 'c remote
     \<Rightarrow> error option \<times> 'c remote" where
  "call_AddSecretVersion cl req r =
     (case smc_AddSecretVersion cl req (client_state r) of
        (res, c) \<Rightarrow> (res, \<lparr>calls = calls r @ [AddSecretVersion_call req], client_state = c\<rparr>))"

definition call_CreateSecret ::
  "'c GoogleSecretManagerClient \<Rightarrow> CreateSecretRequest \<Rightarrow> 'c remote
     \<Rightarrow> (Secret option \<times> error option) \<times> 'c remote" where
  "call_CreateSecret cl req r =
     (case smc_CreateSecret cl req (client_state r) of
        (res, c) \<Rightarrow> (res, \<lparr>calls = calls r @ [CreateSecret_call req], client_state = c\<rparr>))"

definition call_Close ::
  "'c GoogleSecretManagerClient \<Rightarrow> 'c remote \<Rightarrow> error option \<times> 'c remote" where
  "call_Close cl r =
     (case smc_Close cl (client_state r) of
        (res, c) \<Rightarrow> (res, \<lparr>calls = calls r @ [Close_call], client_state = c\<rparr>))"

definition call_GetSecret ::
  "'c GoogleSecretManagerClient \<Rightarrow> string \<Rightarrow> 'c remote
     \<Rightarrow> (Secret option \<times> error option) \<times> 'c remote" where
  "call_GetSecret cl name r =
     (case smc_GetSecret cl name (client_state r) of
        (res, c) \<Rightarrow> (res, \<lparr>calls = calls r @ [GetSecret_call name], client_state = c\<rparr>))"

subsection \<open>The provider\<close>

text \<open>\<open>gClient\<close> without its collaborators (the Kubernetes client and the workload
  identity), which the functions below take as parameters.\<close>

record gClient =
  gc_namespace :: string
  gc_storeKind :: string

record 'c ProviderGCP =
  ProjectID :: string
  SecretManagerClient :: "'c GoogleSecretManagerClient option"
  gClient :: "gClient option"

definition defaultVersion :: string where
  "defaultVersion = ''latest''"

definition errUninitalizedGCPProvider :: string where
  "errUninitalizedGCPProvider = ''provider GCP is not initialized''"

definition errClientGetSecretAccess :: string where
  "errClientGetSecretAccess = ''unable to access Secret from SecretManager Client: %w''"

subsection \<open>Resource names\<close>

text \<open>\<open>trimName\<close> and \<open>extractProjectIDNumber\<close> have the provider as receiver and
  read none of its fields. An index beyond the slice that \<open>strings.Split\<close> returns is a
  panic.\<close>

definition extractProjectIDNumber :: "'c ProviderGCP \<Rightarrow> string \<Rightarrow> string outcome" where
  "extractProjectIDNumber sm secretFullName =
     (let s = Split secretFullName (CHR ''/'')
      in if 1 < length s then Returned (s ! 1) else Panic)"

definition trimName :: "'c ProviderGCP \<Rightarrow> string \<Rightarrow> string outcome" where
  "trimName sm name =
     (case extractProjectIDNumber sm name of
        Returned ProjectIDNumuber \<Rightarrow>
          Returned (TrimPrefix name (''projects/'' @ ProjectIDNumuber @ ''/secrets/''))
      | Panic \<Rightarrow> Panic
      | Blocks \<Rightarrow> Blocks)"

subsection \<open>\<open>SetSecret\<close>\<close>

text \<open>The error of an unowned secret, \<open>fmt.Errorf\<close> of a message without \<open>%w\<close>.\<close>

definition errNotManaged :: "string \<Rightarrow> error" where
  "errNotManaged remoteKey =
     ErrorNew (''secret '' @ remoteKey @ '' is not managed by external secrets'')"

definition createSecretReq :: "'c ProviderGCP \<Rightarrow> string \<Rightarrow> CreateSecretRequest" where
  "createSecretReq sm remoteKey =
     \<lparr>csr_Parent = ''projects/'' @ ProjectID sm,
      csr_SecretId = remoteKey,
      csr_Secret = \<lparr>secret_Name = [],
                    secret_Labels = [''managed-by'' \<mapsto> ''external-secrets''],
                    secret_Replication = Some Replication_Automatic\<rparr>\<rparr>"

definition addSecretVersionReq :: "'c ProviderGCP \<Rightarrow> string \<Rightarrow> string \<Rightarrow> AddSecretVersionRequest" where
  "addSecretVersionReq sm remoteKey payload =
     \<lparr>avr_Parent = ''projects/'' @ ProjectID sm @ ''/secrets/'' @ remoteKey,
      avr_Payload = \<lparr>payload_Data = Some payload\<rparr>\<rparr>"

text \<open>\<open>string(b)\<close> of a byte slice: the nil slice is the empty string.\<close>

definition string_of_bytes :: "string option \<Rightarrow> string" where
  "string_of_bytes b = (case b of None \<Rightarrow> [] | Some d \<Rightarrow> d)"

text \<open>
  \<open>SetSecret\<close>, in the order of the source: the read of the secret, with the creation on
  an API error of code \<open>NotFound\<close> and the return on an API error of another code (an error
  that is no API error passes this \<open>if\<close>, which has no \<open>else\<close>); the ownership check, where
  \<open>gcpSecret.Labels\<close> on a nil \<open>gcpSecret\<close> panics; the read of the latest version; the
  comparison of the payloads; the new version. A method of a nil client panics.
\<close>

definition SetSecret ::
  "'c ProviderGCP \<Rightarrow> string \<Rightarrow> string \<Rightarrow> 'c remote \<Rightarrow> error option outcome \<times> 'c remote" where
  "SetSecret sm payload remoteKey r =
     (case SecretManagerClient sm of
        None \<Rightarrow> (Panic, r)
      | Some cl \<Rightarrow>
         (case call_GetSecret cl (''projects/'' @ ProjectID sm @ ''/secrets/'' @ remoteKey) r of
            ((gcpSecret, err), r1) \<Rightarrow>
         (case (case err of
                  None \<Rightarrow> Inr (gcpSecret, r1)
                | Some e \<Rightarrow>
                   (case errors_As_APIError e of
                      None \<Rightarrow> Inr (gcpSecret, r1)
                    | Some code \<Rightarrow>
                       if code = NotFound then
                         (case call_CreateSecret cl (createSecretReq sm remoteKey) r1 of
                            ((created, err2), r2) \<Rightarrow>
                              (case err2 of
                                 Some e2 \<Rightarrow> Inl (Returned (Some e2), r2)
                               | None \<Rightarrow> Inr (created, r2)))
                       else Inl (Returned (Some e), r1))) of
            Inl ret \<Rightarrow> ret
          | Inr (gcpSecret, r2) \<Rightarrow>
             (case gcpSecret of
                None \<Rightarrow> (Panic, r2)
              | Some s \<Rightarrow>
                 if (case secret_Labels s ''managed-by'' of
                       None \<Rightarrow> True
                     | Some manager \<Rightarrow> manager \<noteq> ''external-secrets'')
                 then (Returned (Some (errNotManaged remoteKey)), r2)
                 else
                  (case call_AccessSecretVersion cl
                          (''projects/'' @ ProjectID sm @ ''/secrets/'' @ remoteKey
                             @ ''/versions/latest'') r2 of
                     ((gcpVersion, err3), r3) \<Rightarrow>
                       if (case err3 of
                             None \<Rightarrow> False
                           | Some e3 \<Rightarrow>
                              (case errors_As_APIError e3 of
                                 Some code \<Rightarrow> code \<noteq> NotFound
                               | None \<Rightarrow> True))
                       then (Returned err3, r3)
                       else if (case gcpVersion of
                                  None \<Rightarrow> False
                                | Some v \<Rightarrow>
                                   (case asv_Payload v of
                                      None \<Rightarrow> False
                                    | Some p \<Rightarrow> payload = string_of_bytes (payload_Data p)))
                       then (Returned None, r3)
                       else
                        (case call_AddSecretVersion cl
                                (addSecretVersionReq sm remoteKey payload) r3 of
                           (err4, r4) \<Rightarrow> (Returned err4, r4)))))))"

subsection \<open>\<open>GetSecret\<close>\<close>

text \<open>\<open>ExternalSecretDataRemoteRef\<close>, the fields that the provider reads.\<close>

record ExternalSecretDataRemoteRef =
  ref_Key :: string
  ref_Version :: string
  ref_Property :: string

text \<open>
  \<open>GetSecret\<close>. The library \<open>gjson\<close> is a parameter: \<open>gjson_Get json path\<close> is \<open>None\<close>
  when the result of \<open>gjson.Get(json, path)\<close> does not exist, and \<open>Some\<close> of its
  \<open>String()\<close> when it does. \<open>utils.IsNil\<close> of the client is the nil client. The source
  reads \<open>result.Payload.Data\<close> with no nil check of \<open>result\<close> or of \<open>result.Payload\<close>:
  a panic when either is nil. The dot is escaped by a backslash, the byte \<open>0x5C\<close>.
\<close>

definition GetSecret ::
  "(string \<Rightarrow> string \<Rightarrow> string option) \<Rightarrow> 'c ProviderGCP \<Rightarrow> ExternalSecretDataRemoteRef
     \<Rightarrow> 'c remote \<Rightarrow> (error + string) outcome \<times> 'c remote" where
  "GetSecret gjson_Get sm ref r =
     (case SecretManagerClient sm of
        None \<Rightarrow> (Returned (Inl (ErrorNew errUninitalizedGCPProvider)), r)
      | Some cl \<Rightarrow>
         if ProjectID sm = [] then (Returned (Inl (ErrorNew errUninitalizedGCPProvider)), r)
         else
          (case call_AccessSecretVersion cl
                  (''projects/'' @ ProjectID sm @ ''/secrets/'' @ ref_Key ref @ ''/versions/''
                     @ (if ref_Version ref = [] then defaultVersion else ref_Version ref)) r of
             ((result, err), r1) \<Rightarrow>
               (case err of
                  Some e \<Rightarrow> (Returned (Inl (Errorf errClientGetSecretAccess e)), r1)
                | None \<Rightarrow>
                   (case result of
                      None \<Rightarrow> (Panic, r1)
                    | Some res \<Rightarrow>
                       (case asv_Payload res of
                          None \<Rightarrow> (Panic, r1)
                        | Some pl \<Rightarrow>
                           if ref_Property ref = [] then
                             (case payload_Data pl of
                                Some d \<Rightarrow> (Returned (Inr d), r1)
                              | None \<Rightarrow>
                                 (Returned (Inl (ErrorNew
                                    (''invalid secret received. no secret string for key: ''
                                       @ ref_Key ref))), r1))
                           else
                             (let payload = string_of_bytes (payload_Data pl);
                                  idx = Index (ref_Property ref) (CHR ''.'');
                                  flat = (if idx > 0
                                          then gjson_Get payload
                                                 (ReplaceAll (ref_Property ref) (CHR ''.'')
                                                    [CHR 0x5C, CHR ''.''])
                                          else None)
                              in case flat of
                                   Some val \<Rightarrow> (Returned (Inr val), r1)
                                 | None \<Rightarrow>
                                    (case gjson_Get payload (ref_Property ref) of
                                       None \<Rightarrow>
                                         (Returned (Inl (ErrorNew
                                            (''key '' @ ref_Property ref
                                               @ '' does not exist in secret '' @ ref_Key ref))),
                                          r1)
                                     | Some val \<Rightarrow> (Returned (Inr val), r1))))))))"

text \<open>\<open>getData\<close>: \<open>GetSecret\<close> of the key alone. Beside an error it returns empty
  data, which no caller reads.\<close>

definition getData ::
  "(string \<Rightarrow> string \<Rightarrow> string option) \<Rightarrow> 'c ProviderGCP \<Rightarrow> string
     \<Rightarrow> 'c remote \<Rightarrow> (error + string) outcome \<times> 'c remote" where
  "getData gjson_Get sm key r =
     GetSecret gjson_Get sm \<lparr>ref_Key = key, ref_Version = [], ref_Property = []\<rparr> r"

subsection \<open>\<open>GetAllSecrets\<close>\<close>

text \<open>\<open>ExternalSecretFind\<close>: the path, the regular expression of the name, the tags in
  the order in which \<open>range\<close> visits the map (Go leaves it open), the conversion strategy.\<close>

record ExternalSecretFind =
  find_Path :: "string option"
  find_Name :: "string option"
  find_Tags :: "(string \<times> string) list"
  find_ConversionStrategy :: string

definition errUnexpectedFindOperator :: string where
  "errUnexpectedFindOperator = ''unexpected find operator''"

text \<open>
  The loop of \<open>findByName\<close> over what the iterator returns. The matcher of package
  \<open>find\<close> is the parameter \<open>MatchName\<close>.
\<close>

fun findByName_loop ::
  "(string \<Rightarrow> string \<Rightarrow> string option) \<Rightarrow> 'c ProviderGCP \<Rightarrow> (string \<Rightarrow> bool) \<Rightarrow> string option
     \<Rightarrow> (error + string) list \<Rightarrow> (string \<rightharpoonup> string) \<Rightarrow> 'c remote
     \<Rightarrow> (error + (string \<rightharpoonup> string)) outcome \<times> 'c remote" where
  "findByName_loop gjson_Get sm MatchName path [] secretMap r = (Returned (Inr secretMap), r)"
| "findByName_loop gjson_Get sm MatchName path (resp # it) secretMap r =
     (case resp of
        Inl err \<Rightarrow> (Returned (Inl (Errorf ''failed to list secrets: %w'' err)), r)
      | Inr name \<Rightarrow>
         (case trimName sm name of
            Panic \<Rightarrow> (Panic, r)
          | Blocks \<Rightarrow> (Blocks, r)
          | Returned key \<Rightarrow>
             if \<not> MatchName key
                \<or> (case path of None \<Rightarrow> False | Some p \<Rightarrow> \<not> HasPrefix key p)
             then findByName_loop gjson_Get sm MatchName path it secretMap r
             else
              (case getData gjson_Get sm key r of
                 (Returned (Inr data), r1) \<Rightarrow>
                   findByName_loop gjson_Get sm MatchName path it (secretMap(key \<mapsto> data)) r1
               | (Returned (Inl err), r1) \<Rightarrow> (Returned (Inl err), r1)
               | (Panic, r1) \<Rightarrow> (Panic, r1)
               | (Blocks, r1) \<Rightarrow> (Blocks, r1))))"

text \<open>
  \<open>findByName\<close>. \<open>find.New\<close> and \<open>utils.ConvertKeys\<close> are parameters, the second an
  opaque function of the strategy and of the map that the loop has built. \<open>*ref.Name\<close> of
  a nil name panics.
\<close>

definition findByName ::
  "(string \<Rightarrow> error + (string \<Rightarrow> bool))
     \<Rightarrow> (string \<Rightarrow> (string \<rightharpoonup> string) \<Rightarrow> error + (string \<rightharpoonup> string))
     \<Rightarrow> (string \<Rightarrow> string \<Rightarrow> string option) \<Rightarrow> 'c ProviderGCP \<Rightarrow> ExternalSecretFind
     \<Rightarrow> 'c remote \<Rightarrow> (error + (string \<rightharpoonup> string)) outcome \<times> 'c remote" where
  "findByName find_New ConvertKeys gjson_Get sm ref r =
     (case find_Name ref of
        None \<Rightarrow> (Panic, r)
      | Some name \<Rightarrow>
         (case find_New name of
            Inl err \<Rightarrow> (Returned (Inl err), r)
          | Inr MatchName \<Rightarrow>
             (case SecretManagerClient sm of
                None \<Rightarrow> (Panic, r)
              | Some cl \<Rightarrow>
                 (case call_ListSecrets cl
                         \<lparr>lsr_Parent = ''projects/'' @ ProjectID sm,
                          lsr_Filter = (case find_Path ref of
                                          None \<Rightarrow> []
                                        | Some p \<Rightarrow> ''name:'' @ p)\<rparr> r of
                    (it, r1) \<Rightarrow>
                      (case findByName_loop gjson_Get sm MatchName (find_Path ref) it Map.empty r1 of
                         (Returned (Inr secretMap), r2) \<Rightarrow>
                           (Returned (ConvertKeys (find_ConversionStrategy ref) secretMap), r2)
                       | (Returned (Inl err), r2) \<Rightarrow> (Returned (Inl err), r2)
                       | (Panic, r2) \<Rightarrow> (Panic, r2)
                       | (Blocks, r2) \<Rightarrow> (Blocks, r2))))))"

text \<open>The loop of \<open>findByTags\<close>: the same without the matcher.\<close>

fun findByTags_loop ::
  "(string \<Rightarrow> string \<Rightarrow> string option) \<Rightarrow> 'c ProviderGCP \<Rightarrow> string option
     \<Rightarrow> (error + string) list \<Rightarrow> (string \<rightharpoonup> string) \<Rightarrow> 'c remote
     \<Rightarrow> (error + (string \<rightharpoonup> string)) outcome \<times> 'c remote" where
  "findByTags_loop gjson_Get sm path [] secretMap r = (Returned (Inr secretMap), r)"
| "findByTags_loop gjson_Get sm path (resp # it) secretMap r =
     (case resp of
        Inl err \<Rightarrow> (Returned (Inl (Errorf ''failed to list secrets: %w'' err)), r)
      | Inr name \<Rightarrow>
         (case trimName sm name of
            Panic \<Rightarrow> (Panic, r)
          | Blocks \<Rightarrow> (Blocks, r)
          | Returned key \<Rightarrow>
             if (case path of None \<Rightarrow> False | Some p \<Rightarrow> \<not> HasPrefix key p)
             then findByTags_loop gjson_Get sm path it secretMap r
             else
              (case getData gjson_Get sm key r of
                 (Returned (Inr data), r1) \<Rightarrow>
                   findByTags_loop gjson_Get sm path it (secretMap(key \<mapsto> data)) r1
               | (Returned (Inl err), r1) \<Rightarrow> (Returned (Inl err), r1)
               | (Panic, r1) \<Rightarrow> (Panic, r1)
               | (Blocks, r1) \<Rightarrow> (Blocks, r1))))"

text \<open>The filter of \<open>findByTags\<close>: a clause \<open>labels.k=v\<close> and a space for each tag, the
  last space trimmed, then the clause of the path.\<close>

definition tagFilter :: "ExternalSecretFind \<Rightarrow> string" where
  "tagFilter ref =
     (let labels = TrimSuffix
                     (foldl (\<lambda>acc (k, v). acc @ ''labels.'' @ k @ ''='' @ v @ '' '') []
                        (find_Tags ref)) '' ''
      in case find_Path ref of
           None \<Rightarrow> labels
         | Some p \<Rightarrow> labels @ '' name:'' @ p)"

definition findByTags ::
  "(string \<Rightarrow> (string \<rightharpoonup> string) \<Rightarrow> error + (string \<rightharpoonup> string))
     \<Rightarrow> (string \<Rightarrow> string \<Rightarrow> string option) \<Rightarrow> 'c ProviderGCP \<Rightarrow> ExternalSecretFind
     \<Rightarrow> 'c remote \<Rightarrow> (error + (string \<rightharpoonup> string)) outcome \<times> 'c remote" where
  "findByTags ConvertKeys gjson_Get sm ref r =
     (case SecretManagerClient sm of
        None \<Rightarrow> (Panic, r)
      | Some cl \<Rightarrow>
         (case call_ListSecrets cl
                 \<lparr>lsr_Parent = ''projects/'' @ ProjectID sm, lsr_Filter = tagFilter ref\<rparr> r of
            (it, r1) \<Rightarrow>
              (case findByTags_loop gjson_Get sm (find_Path ref) it Map.empty r1 of
                 (Returned (Inr secretMap), r2) \<Rightarrow>
                   (Returned (ConvertKeys (find_ConversionStrategy ref) secretMap), r2)
               | (Returned (Inl err), r2) \<Rightarrow> (Returned (Inl err), r2)
               | (Panic, r2) \<Rightarrow> (Panic, r2)
               | (Blocks, r2) \<Rightarrow> (Blocks, r2))))"

definition GetAllSecrets ::
  "(string \<Rightarrow> error + (string \<Rightarrow> bool))
     \<Rightarrow> (string \<Rightarrow> (string \<rightharpoonup> string) \<Rightarrow> error + (string \<rightharpoonup> string))
     \<Rightarrow> (string \<Rightarrow> string \<Rightarrow> string option) \<Rightarrow> 'c ProviderGCP \<Rightarrow> ExternalSecretFind
     \<Rightarrow> 'c remote \<Rightarrow> (error + (string \<rightharpoonup> string)) outcome \<times> 'c remote" where
  "GetAllSecrets find_New ConvertKeys gjson_Get sm ref r =
     (if find_Name ref \<noteq> None then findByName find_New ConvertKeys gjson_Get sm ref r
      else if 0 < length (find_Tags ref) then findByTags ConvertKeys gjson_Get sm ref r
      else (Returned (Inl (ErrorNew errUnexpectedFindOperator)), r))"

subsection \<open>Credentials\<close>

text \<open>
  The store, as far as the provider reads it. \<open>auth_WorkloadIdentity\<close> stands for the
  \<open>*GCPWorkloadIdentity\<close> of the store, which only the workload identity reads: the name of
  its service account. \<open>store_Kind\<close> is \<open>store.GetObjectKind().GroupVersionKind().Kind\<close>.
\<close>

record SecretKeySelector =
  sks_Name :: string
  sks_Namespace :: "string option"
  sks_Key :: string

record GCPSMAuthSecretRef =
  SecretAccessKey :: SecretKeySelector

record GCPSMAuth =
  auth_SecretRef :: "GCPSMAuthSecretRef option"
  auth_WorkloadIdentity :: "string option"

record GCPSMProvider =
  gcpsm_Auth :: GCPSMAuth
  gcpsm_ProjectID :: string

record SecretStoreProvider =
  GCPSM :: "GCPSMProvider option"

record SecretStoreSpec =
  spec_Provider :: "SecretStoreProvider option"

record GenericStore =
  store_Kind :: string
  store_Spec :: "SecretStoreSpec option"

record NamespacedName =
  nn_Name :: string
  nn_Namespace :: string

definition CloudPlatformRole :: string where
  "CloudPlatformRole = ''https://www.googleapis.com/auth/cloud-platform''"

definition errGCPSMStore :: string where
  "errGCPSMStore = ''received invalid GCPSM SecretStore resource''"

definition errUnableGetCredentials :: string where
  "errUnableGetCredentials = ''unable to get credentials: %w''"

definition errClientClose :: string where
  "errClientClose = ''unable to close SecretManager client: %w''"

definition errMissingStoreSpec :: string where
  "errMissingStoreSpec = ''invalid: missing store spec''"

definition errInvalidClusterStoreMissingSAKNamespace :: string where
  "errInvalidClusterStoreMissingSAKNamespace =
     ''invalid ClusterSecretStore: missing GCP SecretAccessKey Namespace''"

definition errFetchSAKSecret :: string where
  "errFetchSAKSecret = ''could not fetch SecretAccessKey secret: %w''"

definition errMissingSAK :: string where
  "errMissingSAK = ''missing SecretAccessKey''"

definition errUnableProcessJSONCredentials :: string where
  "errUnableProcessJSONCredentials = ''failed to process the provided JSON credentials: %w''"

definition errUnableCreateGCPSMClient :: string where
  "errUnableCreateGCPSMClient = ''failed to create GCP secretmanager client: %w''"

text \<open>The constant \<open>esv1beta1.ClusterSecretStoreKind\<close>.\<close>

definition ClusterSecretStoreKind :: string where
  "ClusterSecretStoreKind = ''ClusterSecretStore''"

text \<open>
  What the provider calls outside its own file, as parameters. A Go pair of a result and
  an error is a pair of options where the provider tests both, and a sum where it tests
  the error alone. \<open>kube_Get\<close> gives the \<open>Data\<close> of the secret it fetches;
  \<open>JWTConfigFromJSON\<close> gives the token source of the configuration it parses;
  \<open>workloadIdentity_TokenSource\<close> is \<open>c.workloadIdentity.TokenSource\<close> and
  \<open>workloadIdentity_Close\<close> its \<open>Close\<close>; \<open>Token\<close> is the error of \<open>ts.Token()\<close>.
\<close>

record ('ts, 'c) collaborators =
  newWorkloadIdentity :: "error option"
  kube_Get :: "NamespacedName \<Rightarrow> error + (string \<rightharpoonup> string)"
  JWTConfigFromJSON :: "string \<Rightarrow> string \<Rightarrow> error + 'ts"
  workloadIdentity_TokenSource :: "GenericStore \<Rightarrow> string \<Rightarrow> 'ts option \<times> error option"
  workloadIdentity_Close :: "error option"
  DefaultTokenSource :: "string \<Rightarrow> 'ts option \<times> error option"
  Token :: "'ts \<Rightarrow> error option"
  secretmanager_NewClient :: "'ts \<Rightarrow> error + 'c GoogleSecretManagerClient"

text \<open>The calls that the resolution of credentials makes, in order.\<close>

datatype cred_call =
    kube_Get_call NamespacedName
  | JWTConfigFromJSON_call string
  | workloadIdentity_TokenSource_call
  | DefaultTokenSource_call

text \<open>
  \<open>serviceAccountTokenSource\<close>. \<open>spec.Provider.GCPSM\<close> on a nil \<open>spec.Provider\<close> panics.
  In a cluster store a named secret without a namespace is the error, and with one the
  key takes that namespace; the key keeps the caller's namespace otherwise.
\<close>

definition serviceAccountTokenSource ::
  "('ts, 'c) collaborators \<Rightarrow> GenericStore \<Rightarrow> string
     \<Rightarrow> ('ts option \<times> error option) outcome \<times> cred_call list" where
  "serviceAccountTokenSource env store namespace =
     (case store_Spec store of
        None \<Rightarrow> (Returned (None, Some (ErrorNew errMissingStoreSpec)), [])
      | Some spec \<Rightarrow>
         (case spec_Provider spec of
            None \<Rightarrow> (Panic, [])
          | Some provider \<Rightarrow>
             (case GCPSM provider of
                None \<Rightarrow> (Returned (None, Some (ErrorNew errMissingStoreSpec)), [])
              | Some gcpsm \<Rightarrow>
                 (case auth_SecretRef (gcpsm_Auth gcpsm) of
                    None \<Rightarrow> (Returned (None, None), [])
                  | Some sr \<Rightarrow>
                     (let storeKind = store_Kind store;
                          credentialsSecretName = sks_Name (SecretAccessKey sr);
                          objectKey = \<lparr>nn_Name = credentialsSecretName, nn_Namespace = namespace\<rparr>
                      in case (if storeKind = ClusterSecretStoreKind
                                  \<and> credentialsSecretName \<noteq> []
                               then (case sks_Namespace (SecretAccessKey sr) of
                                       None \<Rightarrow> Inl errInvalidClusterStoreMissingSAKNamespace
                                     | Some ns \<Rightarrow> Inr (objectKey\<lparr>nn_Namespace := ns\<rparr>))
                               else Inr objectKey) of
                           Inl msg \<Rightarrow> (Returned (None, Some (ErrorNew msg)), [])
                         | Inr objectKey \<Rightarrow>
                            (case kube_Get env objectKey of
                               Inl err \<Rightarrow>
                                 (Returned (None, Some (Errorf errFetchSAKSecret err)),
                                  [kube_Get_call objectKey])
                             | Inr data \<Rightarrow>
                                (case data (sks_Key (SecretAccessKey sr)) of
                                   None \<Rightarrow>
                                     (Returned (None, Some (ErrorNew errMissingSAK)),
                                      [kube_Get_call objectKey])
                                 | Some credentials \<Rightarrow>
                                    if credentials = [] then
                                      (Returned (None, Some (ErrorNew errMissingSAK)),
                                       [kube_Get_call objectKey])
                                    else
                                     (case JWTConfigFromJSON env credentials CloudPlatformRole of
                                        Inl err \<Rightarrow>
                                          (Returned
                                             (None,
                                              Some (Errorf errUnableProcessJSONCredentials err)),
                                           [kube_Get_call objectKey,
                                            JWTConfigFromJSON_call credentials])
                                      | Inr ts \<Rightarrow>
                                          (Returned (Some ts, None),
                                           [kube_Get_call objectKey,
                                            JWTConfigFromJSON_call credentials])))))))))"

text \<open>\<open>getTokenSource\<close>: the secret reference, then the workload identity, then the
  default token source of the environment.\<close>

definition getTokenSource ::
  "('ts, 'c) collaborators \<Rightarrow> GenericStore \<Rightarrow> string
     \<Rightarrow> ('ts option \<times> error option) outcome \<times> cred_call list" where
  "getTokenSource env store namespace =
     (case serviceAccountTokenSource env store namespace of
        (Panic, tr) \<Rightarrow> (Panic, tr)
      | (Blocks, tr) \<Rightarrow> (Blocks, tr)
      | (Returned (ts, err), tr) \<Rightarrow>
          if ts \<noteq> None \<or> err \<noteq> None then (Returned (ts, err), tr)
          else
           (case workloadIdentity_TokenSource env store namespace of
              (ts, err) \<Rightarrow>
                if ts \<noteq> None \<or> err \<noteq> None
                then (Returned (ts, err), tr @ [workloadIdentity_TokenSource_call])
                else (Returned (DefaultTokenSource env CloudPlatformRole),
                      tr @ [workloadIdentity_TokenSource_call, DefaultTokenSource_call])))"

subsection \<open>\<open>NewClient\<close> and \<open>Close\<close>\<close>

text \<open>
  The mutex \<open>useMu\<close> of the package, and what a run does to it. \<open>Lock\<close> on a locked
  mutex waits; \<open>Unlock\<close> on an unlocked one is a fatal error of the run time.
  \<open>gClient_Close\<close> is the close of the workload identity by the deferred function of
  \<open>NewClient\<close>, which runs at every exit after its \<open>defer\<close>, a panic included, when the
  provider has no client.
\<close>

datatype mutex = Unlocked | Locked

datatype lock_event = useMu_Lock | useMu_Unlock | gClient_Close

definition NewClient ::
  "('ts, 'c) collaborators \<Rightarrow> 'c ProviderGCP \<Rightarrow> GenericStore \<Rightarrow> string \<Rightarrow> mutex
     \<Rightarrow> error option outcome \<times> 'c ProviderGCP \<times> mutex \<times> lock_event list" where
  "NewClient env sm store namespace useMu =
     (case (case store_Spec store of
              None \<Rightarrow> None
            | Some storeSpec \<Rightarrow>
               (case spec_Provider storeSpec of
                  None \<Rightarrow> None
                | Some provider \<Rightarrow> GCPSM provider)) of
        None \<Rightarrow> (Returned (Some (ErrorNew errGCPSMStore)), sm, useMu, [])
      | Some storeSpecGCPSM \<Rightarrow>
         (case useMu of
            Locked \<Rightarrow> (Blocks, sm, Locked, [])
          | Unlocked \<Rightarrow>
             (case newWorkloadIdentity env of
                Some err \<Rightarrow>
                  (Returned (Some (ErrorNew ''unable to initialize workload identity'')),
                   sm, Unlocked, [useMu_Lock, useMu_Unlock])
              | None \<Rightarrow>
                 (let sm1 = sm\<lparr>gClient := Some \<lparr>gc_namespace = namespace,
                                                  gc_storeKind = store_Kind store\<rparr>,
                                ProjectID := gcpsm_ProjectID storeSpecGCPSM\<rparr>;
                      deferred = (if SecretManagerClient sm1 = None then [gClient_Close] else [])
                  in case getTokenSource env store namespace of
                       (Panic, tr) \<Rightarrow> (Panic, sm1, Locked, [useMu_Lock] @ deferred)
                     | (Blocks, tr) \<Rightarrow> (Blocks, sm1, Locked, [useMu_Lock])
                     | (Returned (ts, err), tr) \<Rightarrow>
                        (case err of
                           Some e \<Rightarrow>
                             (Returned (Some (Errorf errUnableCreateGCPSMClient e)),
                              sm1, Unlocked, [useMu_Lock, useMu_Unlock] @ deferred)
                         | None \<Rightarrow>
                            (case ts of
                               None \<Rightarrow> (Panic, sm1, Locked, [useMu_Lock] @ deferred)
                             | Some t \<Rightarrow>
                                (case Token env t of
                                   Some e \<Rightarrow>
                                     (Returned (Some (Errorf errUnableGetCredentials e)),
                                      sm1, Unlocked, [useMu_Lock, useMu_Unlock] @ deferred)
                                 | None \<Rightarrow>
                                    (case secretmanager_NewClient env t of
                                       Inl e \<Rightarrow>
                                         (Returned (Some (Errorf errUnableCreateGCPSMClient e)),
                                          sm1, Unlocked,
                                          [useMu_Lock, useMu_Unlock] @ deferred)
                                     | Inr clientGCPSM \<Rightarrow>
                                         (Returned None,
                                          sm1\<lparr>SecretManagerClient := Some clientGCPSM\<rparr>,
                                          Locked, [useMu_Lock])))))))))"

text \<open>\<open>Close\<close> of the provider: the client, then the workload identity when the provider
  has a \<open>gClient\<close>, whose error replaces the first; then the unlock.\<close>

definition Close ::
  "('ts, 'c) collaborators \<Rightarrow> 'c ProviderGCP \<Rightarrow> 'c remote \<Rightarrow> mutex
     \<Rightarrow> error option outcome \<times> 'c remote \<times> mutex \<times> lock_event list" where
  "Close env sm r useMu =
     (case SecretManagerClient sm of
        None \<Rightarrow> (Panic, r, useMu, [])
      | Some cl \<Rightarrow>
         (case call_Close cl r of
            (err, r1) \<Rightarrow>
              (let err1 = (if gClient sm \<noteq> None then workloadIdentity_Close env else err)
               in case useMu of
                    Unlocked \<Rightarrow> (Panic, r1, Unlocked, [])
                  | Locked \<Rightarrow>
                     (case err1 of
                        Some e \<Rightarrow>
                          (Returned (Some (Errorf errClientClose e)), r1, Unlocked, [useMu_Unlock])
                      | None \<Rightarrow> (Returned None, r1, Unlocked, [useMu_Unlock])))))"

section \<open>Package \<open>acr\<close>: the token of the workload identity\<close>

record ServiceAccountSelector =
  sas_Name :: string
  sas_Namespace :: "string option"
  sas_Audiences :: "string list"

text \<open>
  What \<open>accessTokenForWorkloadIdentity\<close> calls, as parameters: the environment of the
  process (\<open>os.Getenv\<close> gives the empty string for a variable that is not set), the file
  system, the Kubernetes client (\<open>crClient_Get\<close> gives the annotations of the service
  account), and package \<open>keyvault\<close> with its three constants. \<open>NewTokenProvider\<close> gives the
  \<open>OAuthToken()\<close> of the provider it builds: the exchange of the token.
\<close>

record acr_collaborators =
  AadEndpointForType :: "string \<Rightarrow> string"
  Getenv :: "string \<Rightarrow> string"
  ReadFile :: "string \<Rightarrow> error + string"
  NewTokenProvider :: "string \<Rightarrow> string \<Rightarrow> string \<Rightarrow> string \<Rightarrow> string \<Rightarrow> error + string"
  crClient_Get :: "NamespacedName \<Rightarrow> error + (string \<rightharpoonup> string)"
  FetchSAToken :: "string \<Rightarrow> string \<Rightarrow> string list \<Rightarrow> error + string"
  AnnotationClientID :: string
  AnnotationTenantID :: string
  AzureDefaultAudience :: string

datatype acr_call =
    ReadFile_call string
  | NewTokenProvider_call string string string string string
  | crClient_Get_call NamespacedName
  | FetchSAToken_call string string "string list"

definition accessTokenForWorkloadIdentity ::
  "acr_collaborators \<Rightarrow> string \<Rightarrow> string \<Rightarrow> ServiceAccountSelector option \<Rightarrow> string
     \<Rightarrow> (error + string) \<times> acr_call list" where
  "accessTokenForWorkloadIdentity env acrRegistry envType serviceAccountRef namespace =
     (let aadEndpoint = AadEndpointForType env envType;
          acrRegistry1 = (if \<not> HasSuffix acrRegistry ''/'' then acrRegistry @ ''/''
                          else acrRegistry);
          acrResource = ''https://'' @ acrRegistry1 @ ''/.default''
      in case serviceAccountRef of
           None \<Rightarrow>
             (let clientID = Getenv env ''AZURE_CLIENT_ID'';
                  tenantID = Getenv env ''AZURE_TENANT_ID'';
                  tokenFilePath = Getenv env ''AZURE_FEDERATED_TOKEN_FILE''
              in if clientID = [] \<or> tenantID = [] \<or> tokenFilePath = []
                 then (Inl (ErrorNew ''missing environment variables''), [])
                 else
                  (case ReadFile env tokenFilePath of
                     Inl err \<Rightarrow>
                       (Inl (Errorf (''unable to read token file '' @ tokenFilePath @ '': %w'') err),
                        [ReadFile_call tokenFilePath])
                   | Inr token \<Rightarrow>
                      (case NewTokenProvider env token clientID tenantID aadEndpoint acrResource of
                         Inl err \<Rightarrow>
                           (Inl err,
                            [ReadFile_call tokenFilePath,
                             NewTokenProvider_call token clientID tenantID aadEndpoint acrResource])
                       | Inr oauthToken \<Rightarrow>
                           (Inr oauthToken,
                            [ReadFile_call tokenFilePath,
                             NewTokenProvider_call token clientID tenantID aadEndpoint
                               acrResource]))))
         | Some sar \<Rightarrow>
            (let key = \<lparr>nn_Name = sas_Name sar, nn_Namespace = namespace\<rparr>
             in case crClient_Get env key of
                  Inl err \<Rightarrow> (Inl err, [crClient_Get_call key])
                | Inr annotations \<Rightarrow>
                   (case annotations (AnnotationClientID env) of
                      None \<Rightarrow>
                        (Inl (ErrorNew (''service account is missing annoation: ''
                                          @ AnnotationClientID env)),
                         [crClient_Get_call key])
                    | Some clientID \<Rightarrow>
                       (case annotations (AnnotationTenantID env) of
                          None \<Rightarrow>
                            (Inl (ErrorNew (''service account is missing annotation: ''
                                              @ AnnotationTenantID env)),
                             [crClient_Get_call key])
                        | Some tenantID \<Rightarrow>
                           (let audiences =
                                  [AzureDefaultAudience env]
                                    @ (if 0 < length (sas_Audiences sar) then sas_Audiences sar
                                       else [])
                            in case FetchSAToken env namespace (sas_Name sar) audiences of
                                 Inl err \<Rightarrow>
                                   (Inl err,
                                    [crClient_Get_call key,
                                     FetchSAToken_call namespace (sas_Name sar) audiences])
                               | Inr token \<Rightarrow>
                                  (case NewTokenProvider env token clientID tenantID aadEndpoint
                                          acrResource of
                                     Inl err \<Rightarrow>
                                       (Inl err,
                                        [crClient_Get_call key,
                                         FetchSAToken_call namespace (sas_Name sar) audiences,
                                         NewTokenProvider_call token clientID tenantID
                                           aadEndpoint acrResource])
                                   | Inr oauthToken \<Rightarrow>
                                       (Inr oauthToken,
                                        [crClient_Get_call key,
                                         FetchSAToken_call namespace (sas_Name sar) audiences,
                                         NewTokenProvider_call token clientID tenantID
                                           aadEndpoint acrResource])))))))"

section \<open>Inputs for the closed examples\<close>

subsection \<open>Clients\<close>

text \<open>
  Two clients to run the provider on. \<open>mem_client\<close> is a remote in memory: its state
  lists the secrets by resource name, each with its labels and the payloads of its
  versions, the last one being \<open>latest\<close>; it answers an absent secret or version by an API
  error of code \<open>NotFound\<close>. \<open>canned_client\<close> answers every call by a fixed result, as the test double of
  the provider's own tests does.
\<close>

record mem_secret =
  mem_labels :: "string \<rightharpoonup> string"
  mem_versions :: "string list"

definition mem_client :: "(string \<times> mem_secret) list GoogleSecretManagerClient" where
  "mem_client =
     \<lparr>smc_AccessSecretVersion = (\<lambda>name st.
        (case map_of st (TrimSuffix name ''/versions/latest'') of
           None \<Rightarrow> ((None, Some (APIError NotFound ''secret not found'')), st)
         | Some s \<Rightarrow>
            (case mem_versions s of
               [] \<Rightarrow> ((None, Some (APIError NotFound ''version not found'')), st)
             | v # vs \<Rightarrow>
                ((Some \<lparr>asv_Name = name,
                        asv_Payload = Some \<lparr>payload_Data = Some (last (v # vs))\<rparr>\<rparr>, None), st)))),
      smc_ListSecrets = (\<lambda>req st. (map (\<lambda>(n, s). Inr n) st, st)),
      smc_AddSecretVersion = (\<lambda>req st.
        (case map_of st (avr_Parent req) of
           None \<Rightarrow> (Some (APIError NotFound ''secret not found''), st)
         | Some s \<Rightarrow>
            (None, AList.update (avr_Parent req)
                     (s\<lparr>mem_versions :=
                          mem_versions s @ [string_of_bytes (payload_Data (avr_Payload req))]\<rparr>) st))),
      smc_CreateSecret = (\<lambda>req st.
        (case map_of st (csr_Parent req @ ''/secrets/'' @ csr_SecretId req) of
           Some s \<Rightarrow> ((None, Some (APIError AlreadyExists ''secret exists'')), st)
         | None \<Rightarrow>
            ((Some ((csr_Secret req)\<lparr>secret_Name := csr_Parent req @ ''/secrets/'' @ csr_SecretId req\<rparr>),
              None),
             st @ [(csr_Parent req @ ''/secrets/'' @ csr_SecretId req,
                    \<lparr>mem_labels = secret_Labels (csr_Secret req), mem_versions = []\<rparr>)]))),
      smc_Close = (\<lambda>st. (None, st)),
      smc_GetSecret = (\<lambda>name st.
        (case map_of st name of
           None \<Rightarrow> ((None, Some (APIError NotFound ''secret not found'')), st)
         | Some s \<Rightarrow>
            ((Some \<lparr>secret_Name = name, secret_Labels = mem_labels s,
                    secret_Replication = Some Replication_Automatic\<rparr>, None), st)))\<rparr>"

definition canned_client ::
  "(Secret option \<times> error option)
     \<Rightarrow> (string \<Rightarrow> AccessSecretVersionResponse option \<times> error option)
     \<Rightarrow> (error + string) list \<Rightarrow> unit GoogleSecretManagerClient" where
  "canned_client get access listing =
     \<lparr>smc_AccessSecretVersion = (\<lambda>name c. (access name, c)),
      smc_ListSecrets = (\<lambda>req c. (listing, c)),
      smc_AddSecretVersion = (\<lambda>req c. (None, c)),
      smc_CreateSecret = (\<lambda>req c. ((Some (csr_Secret req), None), c)),
      smc_Close = (\<lambda>c. (None, c)),
      smc_GetSecret = (\<lambda>name c. (get, c))\<rparr>"


text \<open>
  For the lookups of \<open>GetSecret\<close>: \<open>gjson_table\<close> is \<open>gjson.Get\<close> cut down to a table
  of the lookups that exist, each a document, a path and the string of the result.
  \<open>fallback_gjson\<close> is the library on the document \<open>fallback_payload\<close>, where the flat key
  \<open>a.b\<close> (path \<open>a\.b\<close>) and the nested field (path \<open>a.b\<close>) both exist; \<open>leading_dot_gjson\<close> is
  the library on the document \<open>leading_dot_payload\<close>, whose one key \<open>.a.b\<close> is reached by
  the escaped path only: the path \<open>.a.b\<close> asks for a field of the empty key, which the
  document lacks. \<open>payload_client\<close> serves one payload as every version, and
  \<open>listing_client\<close> lists two secrets.
\<close>

definition gjson_table :: "(string \<times> string \<times> string) list \<Rightarrow> string \<Rightarrow> string \<Rightarrow> string option" where
  "gjson_table tbl json path = map_of (map (\<lambda>(j, p, v). ((j, p), v)) tbl) (json, path)"

definition fallback_payload :: string where
  \<open>fallback_payload = ''{"a.b":"v1","a":{"b":"v2"}}''\<close>

definition fallback_gjson :: "string \<Rightarrow> string \<Rightarrow> string option" where
  "fallback_gjson =
     gjson_table [(fallback_payload, ''a'' @ [CHR 0x5C] @ ''.b'', ''v1''),
                  (fallback_payload, ''a.b'', ''v2'')]"

definition leading_dot_payload :: string where
  \<open>leading_dot_payload = ''{".a.b":"x"}''\<close>

definition leading_dot_gjson :: "string \<Rightarrow> string \<Rightarrow> string option" where
  "leading_dot_gjson =
     gjson_table [(leading_dot_payload, [CHR 0x5C] @ ''.a'' @ [CHR 0x5C] @ ''.b'', ''x'')]"

definition payload_client :: "string \<Rightarrow> unit GoogleSecretManagerClient" where
  "payload_client payload =
     canned_client (None, None)
       (\<lambda>name. (Some \<lparr>asv_Name = name,
                       asv_Payload = Some \<lparr>payload_Data = Some payload\<rparr>\<rparr>, None)) []"

definition listing_client :: "unit GoogleSecretManagerClient" where
  "listing_client =
     canned_client (None, None)
       (\<lambda>name. (Some \<lparr>asv_Name = name,
                       asv_Payload = Some \<lparr>payload_Data = Some ''data''\<rparr>\<rparr>, None))
       [Inr ''projects/123/secrets/foobar/x'', Inr ''projects/123/secrets/foo/y'']"

subsection \<open>Stores and collaborators\<close>

text \<open>
  \<open>gcpsm_store\<close> is a store of a given kind with a GCP provider; \<open>example_secretRef\<close>
  names the secret \<open>gcp-creds\<close>, which \<open>example_env\<close> holds in the namespace \<open>team-a\<close>
  only. In \<open>example_env\<close> every collaborator succeeds. \<open>webhook_env\<close> is the environment
  of a process with the given variables set.
\<close>

definition gcpsm_store :: "string \<Rightarrow> GCPSMAuthSecretRef option \<Rightarrow> string option \<Rightarrow> GenericStore" where
  "gcpsm_store kind secretRef workloadIdentity =
     \<lparr>store_Kind = kind,
      store_Spec = Some \<lparr>spec_Provider = Some \<lparr>GCPSM = Some
        \<lparr>gcpsm_Auth = \<lparr>auth_SecretRef = secretRef, auth_WorkloadIdentity = workloadIdentity\<rparr>,
         gcpsm_ProjectID = ''p1''\<rparr>\<rparr>\<rparr>\<rparr>"

definition example_env :: "(string, unit) collaborators" where
  "example_env =
     \<lparr>newWorkloadIdentity = None,
      kube_Get = (\<lambda>key. if key = \<lparr>nn_Name = ''gcp-creds'', nn_Namespace = ''team-a''\<rparr>
                         then Inr [''key.json'' \<mapsto> ''service-account-json'']
                         else Inl (ErrorNew ''not found'')),
      JWTConfigFromJSON = (\<lambda>credentials scope. Inr (''jwt:'' @ credentials)),
      workloadIdentity_TokenSource = (\<lambda>store namespace. (Some ''workload-identity'', None)),
      workloadIdentity_Close = None,
      DefaultTokenSource = (\<lambda>scope. (Some ''default'', None)),
      Token = (\<lambda>ts. None),
      secretmanager_NewClient =
        (\<lambda>ts. Inr (canned_client (None, None) (\<lambda>name. (None, None)) []))\<rparr>"

definition example_secretRef :: "string option \<Rightarrow> GCPSMAuthSecretRef" where
  "example_secretRef namespace =
     \<lparr>SecretAccessKey =
        \<lparr>sks_Name = ''gcp-creds'', sks_Namespace = namespace, sks_Key = ''key.json''\<rparr>\<rparr>"

definition webhook_env :: "(string \<times> string) list \<Rightarrow> acr_collaborators" where
  "webhook_env vars =
     \<lparr>AadEndpointForType = (\<lambda>envType. ''https://login.microsoftonline.com/''),
      Getenv = (\<lambda>name. case map_of vars name of None \<Rightarrow> [] | Some v \<Rightarrow> v),
      ReadFile = (\<lambda>path. Inr ''projected-token''),
      NewTokenProvider = (\<lambda>token clientID tenantID aadEndpoint acrResource. Inr ''oauth-token''),
      crClient_Get = (\<lambda>key. Inl (ErrorNew ''not found'')),
      FetchSAToken = (\<lambda>namespace name audiences. Inl (ErrorNew ''not found'')),
      AnnotationClientID = ''azure.workload.identity/client-id'',
      AnnotationTenantID = ''azure.workload.identity/tenant-id'',
      AzureDefaultAudience = ''api://AzureADTokenExchange''\<rparr>"

section \<open>Properties\<close>

subsection \<open>Strings\<close>

lemma Split_not_Nil: "Split s sep \<noteq> []"
  by (induction s) (auto split: list.splits)

lemma Split_no_sep: "sep \<notin> set s \<Longrightarrow> Split s sep = [s]"
  by (induction s) auto

lemma Split_append_sep:
  "sep \<notin> set a \<Longrightarrow> Split (a @ sep # b) sep = a # Split b sep"
  by (induction a) auto

lemma Split_length_sep: "sep \<in> set s \<Longrightarrow> 1 < length (Split s sep)"
proof (induction s)
  case Nil
  then show ?case by simp
next
  case (Cons c cs)
  show ?case
  proof (cases "c = sep")
    case True
    then show ?thesis
      using Split_not_Nil [of cs sep] by (cases "Split cs sep") auto
  next
    case False
    with Cons have "1 < length (Split cs sep)" by simp
    with False show ?thesis by (cases "Split cs sep") auto
  qed
qed

lemma HasPrefix_append: "HasPrefix (p @ s) p"
  by (simp add: HasPrefix_def)

lemma TrimPrefix_append: "TrimPrefix (p @ s) p = s"
  by (simp add: TrimPrefix_def HasPrefix_append)

lemma HasSuffix_append: "HasSuffix (s @ p) p"
  by (simp add: HasSuffix_def)

lemma TrimSuffix_append: "TrimSuffix (s @ p) p = s"
  by (simp add: TrimSuffix_def HasSuffix_append)

subsection \<open>Resource names\<close>

lemma extractProjectIDNumber_no_slash:
  "CHR ''/'' \<notin> set name \<Longrightarrow> extractProjectIDNumber sm name = Panic"
  by (simp add: extractProjectIDNumber_def Split_no_sep)

lemma extractProjectIDNumber_slash:
  "CHR ''/'' \<in> set name \<Longrightarrow> \<exists>p. extractProjectIDNumber sm name = Returned p"
  using Split_length_sep [of "CHR ''/''" name] by (simp add: extractProjectIDNumber_def Let_def)

lemma extractProjectIDNumber_projects:
  assumes "CHR ''/'' \<notin> set pid"
  shows "extractProjectIDNumber sm (''projects/'' @ pid @ ''/secrets/'' @ key) = Returned pid"
proof -
  have a: "''projects/'' @ pid @ ''/secrets/'' @ key
             = ''projects'' @ CHR ''/'' # (pid @ CHR ''/'' # (''secrets/'' @ key))"
    by simp
  have "Split (''projects'' @ CHR ''/'' # (pid @ CHR ''/'' # (''secrets/'' @ key))) (CHR ''/'')
          = ''projects'' # pid # Split (''secrets/'' @ key) (CHR ''/'')"
    using assms by (simp add: Split_append_sep del: append.simps)
  then have "Split (''projects/'' @ pid @ ''/secrets/'' @ key) (CHR ''/'')
          = ''projects'' # pid # Split (''secrets/'' @ key) (CHR ''/'')"
    using a by simp
  then show ?thesis
    by (simp add: extractProjectIDNumber_def)
qed

lemma TrimPrefix_append3: "TrimPrefix (a @ b @ c @ s) (a @ b @ c) = s"
  using TrimPrefix_append [of "a @ b @ c" s] by simp

lemma trimName_no_slash: "CHR ''/'' \<notin> set name \<Longrightarrow> trimName sm name = Panic"
  by (simp add: trimName_def extractProjectIDNumber_no_slash)

lemma trimName_slash:
  assumes "CHR ''/'' \<in> set name"
  shows "\<exists>k. trimName sm name = Returned k"
proof -
  obtain p where "extractProjectIDNumber sm name = Returned p"
    using extractProjectIDNumber_slash [of name sm, OF assms] by auto
  then show ?thesis
    by (simp add: trimName_def)
qed

lemma trimName_projects:
  assumes "CHR ''/'' \<notin> set pid"
  shows "trimName sm (''projects/'' @ pid @ ''/secrets/'' @ key) = Returned key"
proof -
  have "extractProjectIDNumber sm (''projects/'' @ pid @ ''/secrets/'' @ key) = Returned pid"
    using assms by (rule extractProjectIDNumber_projects)
  then show ?thesis
    unfolding trimName_def by (simp only: outcome.case TrimPrefix_append3)
qed

text \<open>
  C10. \<open>trimName\<close> returns exactly on the names that hold a \<open>/\<close>, that is on the names of
  at least two segments: a name of fewer segments makes the index \<open>s[1]\<close> of
  \<open>extractProjectIDNumber\<close> leave the slice, a panic. On every name
  \<open>projects/<id>/secrets/<key>\<close> whose \<open><id>\<close> is one segment it returns \<open><key>\<close>,
  whatever the provider's own project id is: the id is read from the name.
\<close>

theorem trimName_total_on_segments:
  "(CHR ''/'' \<notin> set name \<longrightarrow>
      extractProjectIDNumber sm name = Panic \<and> trimName sm name = Panic)
   \<and> (CHR ''/'' \<in> set name \<longrightarrow> (\<exists>k. trimName sm name = Returned k))
   \<and> (CHR ''/'' \<notin> set pid \<longrightarrow>
        trimName sm (''projects/'' @ pid @ ''/secrets/'' @ key) = Returned key)"
  using trimName_no_slash [of name sm] trimName_slash [of name sm]
        trimName_projects [of pid sm key] extractProjectIDNumber_no_slash [of name sm]
  by (intro conjI impI)

theorem trimName_total_on_segments_witness:
  "trimName (\<lparr>ProjectID = ''my-project'', SecretManagerClient = None, gClient = None\<rparr>
        :: unit ProviderGCP)
     ''secret-without-segments'' = Panic
   \<and> (\<exists>k. trimName (\<lparr>ProjectID = ''my-project'', SecretManagerClient = None, gClient = None\<rparr>
        :: unit ProviderGCP)
            ''a/b'' = Returned k)
   \<and> trimName (\<lparr>ProjectID = ''my-project'', SecretManagerClient = None, gClient = None\<rparr>
        :: unit ProviderGCP)
       (''projects/'' @ ''1234'' @ ''/secrets/'' @ ''db/creds'')
       = Returned ''db/creds''"
proof -
  have a: "CHR ''/'' \<notin> set ''secret-without-segments''" by simp
  have b: "CHR ''/'' \<in> set ''a/b''" by simp
  have c: "CHR ''/'' \<notin> set ''1234''" by simp
  show ?thesis
    using trimName_total_on_segments
            [of "''secret-without-segments''"
                "\<lparr>ProjectID = ''my-project'', SecretManagerClient = None, gClient = None\<rparr>
                   :: unit ProviderGCP"
                "''1234''" "''db/creds''"]
          trimName_total_on_segments
            [of "''a/b''"
                "\<lparr>ProjectID = ''my-project'', SecretManagerClient = None, gClient = None\<rparr>
                   :: unit ProviderGCP"
                "''1234''" "''db/creds''"]
          a b c
    by blast
qed

subsection \<open>\<open>SetSecret\<close>\<close>

text \<open>
  C1. A secret that the remote already holds (the read returns it, with no error) and
  whose labels lack \<open>managed-by\<close> or give it another value than \<open>external-secrets\<close>:
  \<open>SetSecret\<close> returns the error of an unowned secret, and the read is the only call it
  has made on the client. No \<open>AddSecretVersion\<close> and no \<open>CreateSecret\<close> is called.
\<close>

theorem SetSecret_not_managed:
  assumes "SecretManagerClient sm = Some cl"
      and "smc_GetSecret cl (''projects/'' @ ProjectID sm @ ''/secrets/'' @ remoteKey)
             (client_state r) = ((Some s, None), c)"
      and "secret_Labels s ''managed-by'' \<noteq> Some ''external-secrets''"
  shows "SetSecret sm payload remoteKey r =
           (Returned (Some (errNotManaged remoteKey)),
            \<lparr>calls = calls r @ [GetSecret_call (''projects/'' @ ProjectID sm @ ''/secrets/'' @ remoteKey)],
             client_state = c\<rparr>)"
  using assms
  by (simp add: SetSecret_def call_GetSecret_def split: option.splits)

theorem SetSecret_not_managed_witness:
  "SetSecret \<lparr>ProjectID = ''p1'', SecretManagerClient = Some mem_client, gClient = None\<rparr>
     ''hunter2'' ''db/creds''
     \<lparr>calls = [],
      client_state = [(''projects/p1/secrets/db/creds'',
                       \<lparr>mem_labels = [''team'' \<mapsto> ''dba''], mem_versions = [''old'']\<rparr>)]\<rparr>
   = (Returned (Some (errNotManaged ''db/creds'')),
      \<lparr>calls = [GetSecret_call ''projects/p1/secrets/db/creds''],
       client_state = [(''projects/p1/secrets/db/creds'',
                        \<lparr>mem_labels = [''team'' \<mapsto> ''dba''], mem_versions = [''old'']\<rparr>)]\<rparr>)"
  using SetSecret_not_managed
    [of "\<lparr>ProjectID = ''p1'', SecretManagerClient = Some mem_client, gClient = None\<rparr>"
        mem_client "''db/creds''"
        "\<lparr>calls = [],
          client_state = [(''projects/p1/secrets/db/creds'',
                           \<lparr>mem_labels = [''team'' \<mapsto> ''dba''], mem_versions = [''old'']\<rparr>)]\<rparr>"
        "\<lparr>secret_Name = ''projects/p1/secrets/db/creds'',
          secret_Labels = [''team'' \<mapsto> ''dba''],
          secret_Replication = Some Replication_Automatic\<rparr>"
        "[(''projects/p1/secrets/db/creds'',
           \<lparr>mem_labels = [''team'' \<mapsto> ''dba''], mem_versions = [''old'']\<rparr>)]"
        "''hunter2''"]
  by (simp add: mem_client_def)






lemma SetSecret_read_api_error:
  assumes "SecretManagerClient sm = Some cl"
      and "smc_GetSecret cl (''projects/'' @ ProjectID sm @ ''/secrets/'' @ remoteKey)
             (client_state r) = ((gcpSecret, Some e), c)"
      and "errors_As_APIError e = Some code" and "code \<noteq> NotFound"
  shows "SetSecret sm payload remoteKey r =
           (Returned (Some e),
            \<lparr>calls = calls r
               @ [GetSecret_call (''projects/'' @ ProjectID sm @ ''/secrets/'' @ remoteKey)],
             client_state = c\<rparr>)"
  using assms by (simp add: SetSecret_def call_GetSecret_def)

lemma SetSecret_read_not_found:
  assumes "SecretManagerClient sm = Some cl"
      and "smc_GetSecret cl (''projects/'' @ ProjectID sm @ ''/secrets/'' @ remoteKey)
             (client_state r) = ((gcpSecret, Some e), c)"
      and "errors_As_APIError e = Some NotFound"
  shows "\<exists>rest. calls (snd (SetSecret sm payload remoteKey r)) =
           calls r
             @ [GetSecret_call (''projects/'' @ ProjectID sm @ ''/secrets/'' @ remoteKey),
                CreateSecret_call
                  \<lparr>csr_Parent = ''projects/'' @ ProjectID sm, csr_SecretId = remoteKey,
                   csr_Secret = \<lparr>secret_Name = [],
                                 secret_Labels = [''managed-by'' \<mapsto> ''external-secrets''],
                                 secret_Replication = Some Replication_Automatic\<rparr>\<rparr>]
             @ rest"
  using assms
  by (auto simp: SetSecret_def call_GetSecret_def call_CreateSecret_def createSecretReq_def
        call_AccessSecretVersion_def call_AddSecretVersion_def
        split: prod.splits option.splits)

text \<open>
  C7. A read error that is an API error is handled as C7 says (the two lemmas above): code
  \<open>NotFound\<close> leads to \<open>CreateSecret\<close> with the ownership label and automatic replication,
  another code is returned at once. At a read error that is no API error, a deadline
  exceeded for one, with no secret returned, \<open>SetSecret\<close> does not return the error. The \<open>if\<close> on the read error handles
  API errors only, so the run reaches the ownership check with a nil secret and panics
  there. (The read of the latest version, further down, has the \<open>else\<close> branch that
  returns such an error.)
\<close>

theorem SetSecret_read_error_panics:
  "SetSecret
     \<lparr>ProjectID = ''p1'',
      SecretManagerClient =
        Some (canned_client (None, Some (ErrorNew ''context deadline exceeded''))
                (\<lambda>name. (None, None)) []),
      gClient = None\<rparr>
     ''hunter2'' ''db/creds'' \<lparr>calls = [], client_state = ()\<rparr>
   = (Panic, \<lparr>calls = [GetSecret_call ''projects/p1/secrets/db/creds''], client_state = ()\<rparr>)"
  by (simp add: SetSecret_def call_GetSecret_def canned_client_def)


subsection \<open>\<open>GetSecret\<close>\<close>

text \<open>
  C5, as stated, fails on a property that starts with a dot: \<open>.a.b\<close> holds a dot at a
  position greater than zero, but \<open>strings.Index\<close> gives the position of the first dot,
  which is zero, so the flat key is not tried. On a document whose flat key \<open>.a.b\<close> exists
  the call returns the error of a missing key.
\<close>

theorem GetSecret_leading_dot_counterexample:
  "CHR ''.'' \<in> set (drop 1 ''.a.b'')
   \<and> leading_dot_gjson leading_dot_payload (ReplaceAll ''.a.b'' (CHR ''.'') [CHR 0x5C, CHR ''.''])
       = Some ''x''
   \<and> fst (GetSecret leading_dot_gjson
            \<lparr>ProjectID = ''p1'', SecretManagerClient = Some (payload_client leading_dot_payload),
             gClient = None\<rparr>
            \<lparr>ref_Key = ''k'', ref_Version = [], ref_Property = ''.a.b''\<rparr>
            \<lparr>calls = [], client_state = ()\<rparr>)
       = Returned (Inl (ErrorNew ''key .a.b does not exist in secret k''))"
  by (simp add: GetSecret_def call_AccessSecretVersion_def payload_client_def canned_client_def
        leading_dot_gjson_def gjson_table_def leading_dot_payload_def ReplaceAll_def
        string_of_bytes_def defaultVersion_def)

text \<open>
  C5, amended. When the secret version has been read with its payload, and the first dot
  of the requested property is at a position greater than zero: \<open>GetSecret\<close> returns the
  value of the whole property as one flat key, dots escaped, when that lookup exists;
  otherwise the value of the property as a nested path when that exists; otherwise the
  error that the key does not exist. On the document \<open>fallback_payload\<close> and the property
  \<open>a.b\<close>, the flat key being \<open>v1\<close>, the result is \<open>v1\<close>.
\<close>

theorem GetSecret_flat_key_first:
  assumes "SecretManagerClient sm = Some cl" and "ProjectID sm \<noteq> []"
      and "smc_AccessSecretVersion cl
             (''projects/'' @ ProjectID sm @ ''/secrets/'' @ ref_Key ref @ ''/versions/''
                @ (if ref_Version ref = [] then defaultVersion else ref_Version ref))
             (client_state r) = ((Some res, None), c)"
      and "asv_Payload res = Some pl"
      and "0 < Index (ref_Property ref) (CHR ''.'')"
  shows "fst (GetSecret gjson_Get sm ref r) =
           (case gjson_Get (string_of_bytes (payload_Data pl))
                   (ReplaceAll (ref_Property ref) (CHR ''.'') [CHR 0x5C, CHR ''.'']) of
              Some flat \<Rightarrow> Returned (Inr flat)
            | None \<Rightarrow>
               (case gjson_Get (string_of_bytes (payload_Data pl)) (ref_Property ref) of
                  Some nested \<Rightarrow> Returned (Inr nested)
                | None \<Rightarrow>
                   Returned (Inl (ErrorNew (''key '' @ ref_Property ref
                                    @ '' does not exist in secret '' @ ref_Key ref)))))
         \<and> (payload_Data pl = Some fallback_payload \<and> ref_Property ref = ''a.b''
              \<and> gjson_Get fallback_payload (''a'' @ [CHR 0x5C] @ ''.b'') = Some ''v1''
            \<longrightarrow> fst (GetSecret gjson_Get sm ref r) = Returned (Inr ''v1''))"
proof -
  from assms(5) have "ref_Property ref \<noteq> []" by auto
  with assms have 1: "fst (GetSecret gjson_Get sm ref r) =
           (case gjson_Get (string_of_bytes (payload_Data pl))
                   (ReplaceAll (ref_Property ref) (CHR ''.'') [CHR 0x5C, CHR ''.'']) of
              Some flat \<Rightarrow> Returned (Inr flat)
            | None \<Rightarrow>
               (case gjson_Get (string_of_bytes (payload_Data pl)) (ref_Property ref) of
                  Some nested \<Rightarrow> Returned (Inr nested)
                | None \<Rightarrow>
                   Returned (Inl (ErrorNew (''key '' @ ref_Property ref
                                    @ '' does not exist in secret '' @ ref_Key ref)))))"
    by (simp add: GetSecret_def call_AccessSecretVersion_def Let_def split: option.splits)
  have 2: "fst (GetSecret gjson_Get sm ref r) = Returned (Inr ''v1'')"
    if "payload_Data pl = Some fallback_payload" "ref_Property ref = ''a.b''"
       "gjson_Get fallback_payload (''a'' @ [CHR 0x5C] @ ''.b'') = Some ''v1''"
    using that 1 by (simp add: string_of_bytes_def ReplaceAll_def)
  from 1 2 show ?thesis by blast
qed

theorem GetSecret_flat_key_first_witness:
  "0 < Index ''a.b'' (CHR ''.'')
   \<and> fst (GetSecret fallback_gjson
          \<lparr>ProjectID = ''p1'', SecretManagerClient = Some (payload_client fallback_payload),
           gClient = None\<rparr>
          \<lparr>ref_Key = ''k'', ref_Version = [], ref_Property = ''a.b''\<rparr>
          \<lparr>calls = [], client_state = ()\<rparr>)
   = Returned (Inr ''v1'')"
proof -
  have "fallback_gjson fallback_payload (''a'' @ [CHR 0x5C] @ ''.b'') = Some ''v1''"
    by (simp add: fallback_gjson_def gjson_table_def)
  with GetSecret_flat_key_first
    [of "\<lparr>ProjectID = ''p1'', SecretManagerClient = Some (payload_client fallback_payload),
           gClient = None\<rparr>"
        "payload_client fallback_payload"
        "\<lparr>ref_Key = ''k'', ref_Version = [], ref_Property = ''a.b''\<rparr>"
        "\<lparr>calls = [], client_state = ()\<rparr>"
        "\<lparr>asv_Name = ''projects/p1/secrets/k/versions/latest'',
          asv_Payload = Some \<lparr>payload_Data = Some fallback_payload\<rparr>\<rparr>"
        "()" "\<lparr>payload_Data = Some fallback_payload\<rparr>" fallback_gjson]
  show ?thesis
    by (simp add: payload_client_def canned_client_def defaultVersion_def
          string_of_bytes_def ReplaceAll_def)
qed


subsection \<open>\<open>GetAllSecrets\<close>\<close>

lemma findByName_loop_prefix:
  "findByName_loop gj sm m (Some p) it secretMap r = (Returned (Inr res), r')
   \<Longrightarrow> \<forall>key \<in> dom secretMap. HasPrefix key p
   \<Longrightarrow> \<forall>key \<in> dom res. HasPrefix key p"
proof (induction it arbitrary: secretMap r)
  case Nil
  then show ?case by simp
next
  case (Cons resp it)
  show ?case
  proof (cases resp)
    case (Inl err)
    with Cons.prems show ?thesis by simp
  next
    case (Inr name)
    show ?thesis
    proof (cases "trimName sm name")
      case (Returned key)
      show ?thesis
      proof (cases "\<not> m key \<or> \<not> HasPrefix key p")
        case True
        with Cons.prems Inr Returned
        have "findByName_loop gj sm m (Some p) it secretMap r = (Returned (Inr res), r')"
          by auto
        from Cons.IH [OF this Cons.prems(2)] show ?thesis .
      next
        case False
        obtain out r1 where g: "getData gj sm key r = (out, r1)"
          by (cases "getData gj sm key r")
        with Cons.prems(1) Inr Returned False obtain data where
          d: "out = Returned (Inr data)"
          and l: "findByName_loop gj sm m (Some p) it (secretMap(key \<mapsto> data)) r1
                    = (Returned (Inr res), r')"
          by (auto split: outcome.splits sum.splits)
        from False Cons.prems(2) have "\<forall>k \<in> dom (secretMap(key \<mapsto> data)). HasPrefix k p"
          by auto
        from Cons.IH [OF l this] show ?thesis .
      qed
    next
      case Panic
      with Cons.prems Inr show ?thesis by simp
    next
      case Blocks
      with Cons.prems Inr show ?thesis by simp
    qed
  qed
qed

lemma findByTags_loop_prefix:
  "findByTags_loop gj sm (Some p) it secretMap r = (Returned (Inr res), r')
   \<Longrightarrow> \<forall>key \<in> dom secretMap. HasPrefix key p
   \<Longrightarrow> \<forall>key \<in> dom res. HasPrefix key p"
proof (induction it arbitrary: secretMap r)
  case Nil
  then show ?case by simp
next
  case (Cons resp it)
  show ?case
  proof (cases resp)
    case (Inl err)
    with Cons.prems show ?thesis by simp
  next
    case (Inr name)
    show ?thesis
    proof (cases "trimName sm name")
      case (Returned key)
      show ?thesis
      proof (cases "HasPrefix key p")
        case False
        with Cons.prems Inr Returned
        have "findByTags_loop gj sm (Some p) it secretMap r = (Returned (Inr res), r')"
          by auto
        from Cons.IH [OF this Cons.prems(2)] show ?thesis .
      next
        case True
        obtain out r1 where g: "getData gj sm key r = (out, r1)"
          by (cases "getData gj sm key r")
        with Cons.prems(1) Inr Returned True obtain data where
          d: "out = Returned (Inr data)"
          and l: "findByTags_loop gj sm (Some p) it (secretMap(key \<mapsto> data)) r1
                    = (Returned (Inr res), r')"
          by (auto split: outcome.splits sum.splits)
        from True Cons.prems(2) have "\<forall>k \<in> dom (secretMap(key \<mapsto> data)). HasPrefix k p"
          by auto
        from Cons.IH [OF l this] show ?thesis .
      qed
    next
      case Panic
      with Cons.prems Inr show ?thesis by simp
    next
      case Blocks
      with Cons.prems Inr show ?thesis by simp
    qed
  qed
qed

lemma findByName_prefix:
  assumes "findByName find_New ConvertKeys gj sm ref r = (Returned (Inr res), r')"
      and "find_Path ref = Some p"
  shows "\<exists>secretMap. ConvertKeys (find_ConversionStrategy ref) secretMap = Inr res
            \<and> (\<forall>key \<in> dom secretMap. HasPrefix key p)"
proof -
  from assms(1) obtain name MatchName cl where
    n: "find_Name ref = Some name" "find_New name = Inr MatchName" "SecretManagerClient sm = Some cl"
    by (auto simp: findByName_def split: option.splits sum.splits)
  obtain it r1 where ls: "call_ListSecrets cl
                         \<lparr>lsr_Parent = ''projects/'' @ ProjectID sm,
                          lsr_Filter = (case find_Path ref of
                                          None \<Rightarrow> []
                                        | Some p \<Rightarrow> ''name:'' @ p)\<rparr> r = (it, r1)"
    by (cases "call_ListSecrets cl
                         \<lparr>lsr_Parent = ''projects/'' @ ProjectID sm,
                          lsr_Filter = (case find_Path ref of
                                          None \<Rightarrow> []
                                        | Some p \<Rightarrow> ''name:'' @ p)\<rparr> r")
  obtain out r2 where lp: "findByName_loop gj sm MatchName (Some p) it Map.empty r1 = (out, r2)"
    by (cases "findByName_loop gj sm MatchName (Some p) it Map.empty r1")
  from assms n ls lp obtain secretMap where
    "out = Returned (Inr secretMap)" "ConvertKeys (find_ConversionStrategy ref) secretMap = Inr res"
    "r2 = r'"
    by (auto simp: findByName_def split: outcome.splits sum.splits)
  with lp findByName_loop_prefix [of gj sm MatchName p it Map.empty r1 secretMap r']
  show ?thesis by auto
qed

lemma findByTags_prefix:
  assumes "findByTags ConvertKeys gj sm ref r = (Returned (Inr res), r')"
      and "find_Path ref = Some p"
  shows "\<exists>secretMap. ConvertKeys (find_ConversionStrategy ref) secretMap = Inr res
            \<and> (\<forall>key \<in> dom secretMap. HasPrefix key p)"
proof -
  from assms(1) obtain cl where
    n: "SecretManagerClient sm = Some cl"
    by (auto simp: findByTags_def split: option.splits)
  obtain it r1 where ls: "call_ListSecrets cl
                 \<lparr>lsr_Parent = ''projects/'' @ ProjectID sm, lsr_Filter = tagFilter ref\<rparr> r = (it, r1)"
    by (cases "call_ListSecrets cl
                 \<lparr>lsr_Parent = ''projects/'' @ ProjectID sm, lsr_Filter = tagFilter ref\<rparr> r")
  obtain out r2 where lp: "findByTags_loop gj sm (Some p) it Map.empty r1 = (out, r2)"
    by (cases "findByTags_loop gj sm (Some p) it Map.empty r1")
  from assms n ls lp obtain secretMap where
    "out = Returned (Inr secretMap)" "ConvertKeys (find_ConversionStrategy ref) secretMap = Inr res"
    "r2 = r'"
    by (auto simp: findByTags_def split: outcome.splits sum.splits)
  with lp findByTags_loop_prefix [of gj sm p it Map.empty r1 secretMap r']
  show ?thesis by auto
qed

text \<open>
  C6. With a path given, the result of \<open>findByName\<close> and of \<open>findByTags\<close> is the
  conversion of a map that holds no key without that prefix: a listed secret whose key,
  the name trimmed by \<open>trimName\<close>, does not start with the path is not in it, whatever the
  filter of the server let through.
\<close>

theorem find_prefix_rechecked:
  "(findByName find_New ConvertKeys gj sm ref r = (Returned (Inr res), r')
      \<and> find_Path ref = Some p
    \<longrightarrow> (\<exists>secretMap. ConvertKeys (find_ConversionStrategy ref) secretMap = Inr res
            \<and> (\<forall>key. \<not> HasPrefix key p \<longrightarrow> secretMap key = None)))
   \<and> (findByTags ConvertKeys gj sm ref r = (Returned (Inr res), r')
      \<and> find_Path ref = Some p
    \<longrightarrow> (\<exists>secretMap. ConvertKeys (find_ConversionStrategy ref) secretMap = Inr res
            \<and> (\<forall>key. \<not> HasPrefix key p \<longrightarrow> secretMap key = None)))"
proof (intro conjI impI)
  assume "findByName find_New ConvertKeys gj sm ref r = (Returned (Inr res), r')
      \<and> find_Path ref = Some p"
  then obtain secretMap where
    "ConvertKeys (find_ConversionStrategy ref) secretMap = Inr res"
    "\<forall>key \<in> dom secretMap. HasPrefix key p"
    using findByName_prefix [of find_New ConvertKeys gj sm ref r res r' p] by auto
  then show "\<exists>secretMap. ConvertKeys (find_ConversionStrategy ref) secretMap = Inr res
            \<and> (\<forall>key. \<not> HasPrefix key p \<longrightarrow> secretMap key = None)"
    by (intro exI [of _ secretMap]) auto
next
  assume "findByTags ConvertKeys gj sm ref r = (Returned (Inr res), r')
      \<and> find_Path ref = Some p"
  then obtain secretMap where
    "ConvertKeys (find_ConversionStrategy ref) secretMap = Inr res"
    "\<forall>key \<in> dom secretMap. HasPrefix key p"
    using findByTags_prefix [of ConvertKeys gj sm ref r res r' p] by auto
  then show "\<exists>secretMap. ConvertKeys (find_ConversionStrategy ref) secretMap = Inr res
            \<and> (\<forall>key. \<not> HasPrefix key p \<longrightarrow> secretMap key = None)"
    by (intro exI [of _ secretMap]) auto
qed

theorem find_prefix_rechecked_witness:
  "findByName (\<lambda>re. Inr (\<lambda>key. True)) (\<lambda>strategy secretMap. Inr secretMap) (\<lambda>json path. None)
       \<lparr>ProjectID = ''p1'', SecretManagerClient = Some listing_client, gClient = None\<rparr>
       \<lparr>find_Path = Some ''foo/'', find_Name = Some ''.*'', find_Tags = [],
        find_ConversionStrategy = ''Default''\<rparr>
       \<lparr>calls = [], client_state = ()\<rparr>
     = (Returned (Inr [''foo/y'' \<mapsto> ''data'']),
        \<lparr>calls = [ListSecrets_call \<lparr>lsr_Parent = ''projects/p1'', lsr_Filter = ''name:foo/''\<rparr>,
                  AccessSecretVersion_call ''projects/p1/secrets/foo/y/versions/latest''],
         client_state = ()\<rparr>)
   \<and> findByTags (\<lambda>strategy secretMap. Inr secretMap) (\<lambda>json path. None)
       \<lparr>ProjectID = ''p1'', SecretManagerClient = Some listing_client, gClient = None\<rparr>
       \<lparr>find_Path = Some ''foo/'', find_Name = None, find_Tags = [(''env'', ''prod'')],
        find_ConversionStrategy = ''Default''\<rparr>
       \<lparr>calls = [], client_state = ()\<rparr>
     = (Returned (Inr [''foo/y'' \<mapsto> ''data'']),
        \<lparr>calls = [ListSecrets_call
                    \<lparr>lsr_Parent = ''projects/p1'', lsr_Filter = ''labels.env=prod name:foo/''\<rparr>,
                  AccessSecretVersion_call ''projects/p1/secrets/foo/y/versions/latest''],
         client_state = ()\<rparr>)
   \<and> trimName \<lparr>ProjectID = ''p1'', SecretManagerClient = Some listing_client, gClient = None\<rparr>
         ''projects/123/secrets/foobar/x'' = Returned ''foobar/x''
   \<and> \<not> HasPrefix ''foobar/x'' ''foo/''
   \<and> [''foo/y'' \<mapsto> ''data''] ''foobar/x'' = None"
proof -
  let ?sm = "\<lparr>ProjectID = ''p1'', SecretManagerClient = Some listing_client, gClient = None\<rparr>"
  let ?byName = "\<lparr>find_Path = Some ''foo/'', find_Name = Some ''.*'', find_Tags = [],
        find_ConversionStrategy = ''Default''\<rparr>"
  let ?byTags = "\<lparr>find_Path = Some ''foo/'', find_Name = None, find_Tags = [(''env'', ''prod'')],
        find_ConversionStrategy = ''Default''\<rparr>"
  let ?res = "[''foo/y'' \<mapsto> ''data'']"
  have ev1: "findByName (\<lambda>re. Inr (\<lambda>key. True)) (\<lambda>strategy secretMap. Inr secretMap)
       (\<lambda>json path. None) ?sm ?byName \<lparr>calls = [], client_state = ()\<rparr>
     = (Returned (Inr ?res),
        \<lparr>calls = [ListSecrets_call \<lparr>lsr_Parent = ''projects/p1'', lsr_Filter = ''name:foo/''\<rparr>,
                  AccessSecretVersion_call ''projects/p1/secrets/foo/y/versions/latest''],
         client_state = ()\<rparr>)"
    by (simp add: findByName_def call_ListSecrets_def listing_client_def canned_client_def
          trimName_def extractProjectIDNumber_def TrimPrefix_def HasPrefix_def getData_def
          GetSecret_def call_AccessSecretVersion_def defaultVersion_def)
  have ev2: "findByTags (\<lambda>strategy secretMap. Inr secretMap) (\<lambda>json path. None)
       ?sm ?byTags \<lparr>calls = [], client_state = ()\<rparr>
     = (Returned (Inr ?res),
        \<lparr>calls = [ListSecrets_call
                    \<lparr>lsr_Parent = ''projects/p1'', lsr_Filter = ''labels.env=prod name:foo/''\<rparr>,
                  AccessSecretVersion_call ''projects/p1/secrets/foo/y/versions/latest''],
         client_state = ()\<rparr>)"
    by (simp add: findByTags_def call_ListSecrets_def listing_client_def canned_client_def
          trimName_def extractProjectIDNumber_def TrimPrefix_def HasPrefix_def getData_def
          GetSecret_def call_AccessSecretVersion_def defaultVersion_def tagFilter_def
          TrimSuffix_def HasSuffix_def)
  have np: "\<not> HasPrefix ''foobar/x'' ''foo/''"
    by (simp add: HasPrefix_def)
  have tn: "trimName ?sm ''projects/123/secrets/foobar/x'' = Returned ''foobar/x''"
    by (simp add: trimName_def extractProjectIDNumber_def TrimPrefix_def HasPrefix_def)
  from find_prefix_rechecked
         [of "\<lambda>re. Inr (\<lambda>key. True)" "\<lambda>strategy secretMap. Inr secretMap" "\<lambda>json path. None"
             ?sm ?byName "\<lparr>calls = [], client_state = ()\<rparr>" ?res
             "\<lparr>calls = [ListSecrets_call \<lparr>lsr_Parent = ''projects/p1'', lsr_Filter = ''name:foo/''\<rparr>,
                  AccessSecretVersion_call ''projects/p1/secrets/foo/y/versions/latest''],
               client_state = ()\<rparr>" "''foo/''"]
       ev1 np
  have "?res ''foobar/x'' = None"
    by auto
  moreover
  from find_prefix_rechecked
         [of "\<lambda>re. Inr (\<lambda>key. True)" "\<lambda>strategy secretMap. Inr secretMap" "\<lambda>json path. None"
             ?sm ?byTags "\<lparr>calls = [], client_state = ()\<rparr>" ?res
             "\<lparr>calls = [ListSecrets_call
                         \<lparr>lsr_Parent = ''projects/p1'',
                          lsr_Filter = ''labels.env=prod name:foo/''\<rparr>,
                  AccessSecretVersion_call ''projects/p1/secrets/foo/y/versions/latest''],
               client_state = ()\<rparr>" "''foo/''"]
       ev2 np
  have "?res ''foobar/x'' = None"
    by auto
  ultimately show ?thesis using ev1 ev2 np tn by simp
qed


subsection \<open>Credentials\<close>

lemmas example_defs = gcpsm_store_def example_env_def example_secretRef_def

lemma getTokenSource_first:
  assumes "serviceAccountTokenSource env store ns = (Returned (ts1, e1), tr)"
      and "ts1 \<noteq> None \<or> e1 \<noteq> None"
  shows "getTokenSource env store ns = (Returned (ts1, e1), tr)"
  using assms by (auto simp: getTokenSource_def)

lemma getTokenSource_second:
  assumes "serviceAccountTokenSource env store ns = (Returned (None, None), tr)"
      and "workloadIdentity_TokenSource env store ns = (ts2, e2)"
      and "ts2 \<noteq> None \<or> e2 \<noteq> None"
  shows "getTokenSource env store ns
           = (Returned (ts2, e2), tr @ [workloadIdentity_TokenSource_call])"
  using assms by (auto simp: getTokenSource_def)

lemma getTokenSource_third:
  assumes "serviceAccountTokenSource env store ns = (Returned (None, None), tr)"
      and "workloadIdentity_TokenSource env store ns = (None, None)"
  shows "getTokenSource env store ns
           = (Returned (DefaultTokenSource env CloudPlatformRole),
              tr @ [workloadIdentity_TokenSource_call, DefaultTokenSource_call])"
  using assms by (auto simp: getTokenSource_def)

lemma serviceAccountTokenSource_valid:
  assumes "store_Spec store = Some spec" and "spec_Provider spec = Some provider"
      and "GCPSM provider = Some gcpsm" and "auth_SecretRef (gcpsm_Auth gcpsm) = Some sr"
      and "store_Kind store \<noteq> ClusterSecretStoreKind"
      and "kube_Get env \<lparr>nn_Name = sks_Name (SecretAccessKey sr), nn_Namespace = ns\<rparr> = Inr data"
      and "data (sks_Key (SecretAccessKey sr)) = Some credentials" and "credentials \<noteq> []"
      and "JWTConfigFromJSON env credentials CloudPlatformRole = Inr ts1"
  shows "serviceAccountTokenSource env store ns
           = (Returned (Some ts1, None),
              [kube_Get_call \<lparr>nn_Name = sks_Name (SecretAccessKey sr), nn_Namespace = ns\<rparr>,
               JWTConfigFromJSON_call credentials])"
  using assms by (simp add: serviceAccountTokenSource_def Let_def)

text \<open>
  C4. \<open>getTokenSource\<close> returns what the secret reference yields when that is a token
  source or an error, and the workload identity is then not consulted; when the secret
  reference yields neither, it returns what the workload identity yields when that is a
  token source or an error; when that yields neither too, it returns what the default
  token source yields. So with a secret reference that resolves and a workload identity
  that would resolve too, the token source of the secret reference is the result.
\<close>

theorem getTokenSource_order:
  "(serviceAccountTokenSource env store ns = (Returned (ts1, e1), tr)
      \<and> (ts1 \<noteq> None \<or> e1 \<noteq> None)
    \<longrightarrow> getTokenSource env store ns = (Returned (ts1, e1), tr))
   \<and> (serviceAccountTokenSource env store ns = (Returned (None, None), tr)
      \<and> workloadIdentity_TokenSource env store ns = (ts2, e2) \<and> (ts2 \<noteq> None \<or> e2 \<noteq> None)
    \<longrightarrow> getTokenSource env store ns
          = (Returned (ts2, e2), tr @ [workloadIdentity_TokenSource_call]))
   \<and> (serviceAccountTokenSource env store ns = (Returned (None, None), tr)
      \<and> workloadIdentity_TokenSource env store ns = (None, None)
    \<longrightarrow> getTokenSource env store ns
          = (Returned (DefaultTokenSource env CloudPlatformRole),
             tr @ [workloadIdentity_TokenSource_call, DefaultTokenSource_call]))
   \<and> (store_Spec store = Some spec \<and> spec_Provider spec = Some provider
      \<and> GCPSM provider = Some gcpsm \<and> auth_SecretRef (gcpsm_Auth gcpsm) = Some sr
      \<and> store_Kind store \<noteq> ClusterSecretStoreKind
      \<and> kube_Get env \<lparr>nn_Name = sks_Name (SecretAccessKey sr), nn_Namespace = ns\<rparr> = Inr data
      \<and> data (sks_Key (SecretAccessKey sr)) = Some credentials \<and> credentials \<noteq> []
      \<and> JWTConfigFromJSON env credentials CloudPlatformRole = Inr t1
      \<and> auth_WorkloadIdentity (gcpsm_Auth gcpsm) = Some sa
      \<and> workloadIdentity_TokenSource env store ns = (Some t2, None)
    \<longrightarrow> getTokenSource env store ns
          = (Returned (Some t1, None),
             [kube_Get_call \<lparr>nn_Name = sks_Name (SecretAccessKey sr), nn_Namespace = ns\<rparr>,
              JWTConfigFromJSON_call credentials]))"
proof (intro conjI impI)
  assume "serviceAccountTokenSource env store ns = (Returned (ts1, e1), tr)
      \<and> (ts1 \<noteq> None \<or> e1 \<noteq> None)"
  then show "getTokenSource env store ns = (Returned (ts1, e1), tr)"
    using getTokenSource_first [of env store ns ts1 e1 tr] by simp
next
  assume "serviceAccountTokenSource env store ns = (Returned (None, None), tr)
      \<and> workloadIdentity_TokenSource env store ns = (ts2, e2) \<and> (ts2 \<noteq> None \<or> e2 \<noteq> None)"
  then show "getTokenSource env store ns
          = (Returned (ts2, e2), tr @ [workloadIdentity_TokenSource_call])"
    using getTokenSource_second [of env store ns tr ts2 e2] by simp
next
  assume "serviceAccountTokenSource env store ns = (Returned (None, None), tr)
      \<and> workloadIdentity_TokenSource env store ns = (None, None)"
  then show "getTokenSource env store ns
          = (Returned (DefaultTokenSource env CloudPlatformRole),
             tr @ [workloadIdentity_TokenSource_call, DefaultTokenSource_call])"
    using getTokenSource_third [of env store ns tr] by simp
next
  assume a: "store_Spec store = Some spec \<and> spec_Provider spec = Some provider
      \<and> GCPSM provider = Some gcpsm \<and> auth_SecretRef (gcpsm_Auth gcpsm) = Some sr
      \<and> store_Kind store \<noteq> ClusterSecretStoreKind
      \<and> kube_Get env \<lparr>nn_Name = sks_Name (SecretAccessKey sr), nn_Namespace = ns\<rparr> = Inr data
      \<and> data (sks_Key (SecretAccessKey sr)) = Some credentials \<and> credentials \<noteq> []
      \<and> JWTConfigFromJSON env credentials CloudPlatformRole = Inr t1
      \<and> auth_WorkloadIdentity (gcpsm_Auth gcpsm) = Some sa
      \<and> workloadIdentity_TokenSource env store ns = (Some t2, None)"
  then have "serviceAccountTokenSource env store ns
           = (Returned (Some t1, None),
              [kube_Get_call \<lparr>nn_Name = sks_Name (SecretAccessKey sr), nn_Namespace = ns\<rparr>,
               JWTConfigFromJSON_call credentials])"
    using serviceAccountTokenSource_valid
            [of store spec provider gcpsm sr env ns data credentials t1] by simp
  then show "getTokenSource env store ns
          = (Returned (Some t1, None),
             [kube_Get_call \<lparr>nn_Name = sks_Name (SecretAccessKey sr), nn_Namespace = ns\<rparr>,
              JWTConfigFromJSON_call credentials])"
    by (rule getTokenSource_first) simp
qed

theorem getTokenSource_order_witness:
  "getTokenSource example_env
     (gcpsm_store ''SecretStore'' (Some (example_secretRef None)) (Some ''sa'')) ''team-a''
   = (Returned (Some ''jwt:service-account-json'', None),
      [kube_Get_call \<lparr>nn_Name = ''gcp-creds'', nn_Namespace = ''team-a''\<rparr>,
       JWTConfigFromJSON_call ''service-account-json''])
   \<and> getTokenSource example_env (gcpsm_store ''SecretStore'' None (Some ''sa'')) ''team-a''
     = (Returned (Some ''workload-identity'', None), [workloadIdentity_TokenSource_call])
   \<and> getTokenSource
       (example_env\<lparr>workloadIdentity_TokenSource := (\<lambda>store namespace. (None, None))\<rparr>)
       (gcpsm_store ''SecretStore'' None None) ''team-a''
     = (Returned (Some ''default'', None),
        [workloadIdentity_TokenSource_call, DefaultTokenSource_call])"
proof -
  let ?both = "gcpsm_store ''SecretStore'' (Some (example_secretRef None)) (Some ''sa'')"
  let ?wi = "gcpsm_store ''SecretStore'' None (Some ''sa'')"
  let ?none = "gcpsm_store ''SecretStore'' None None"
  let ?env' = "example_env\<lparr>workloadIdentity_TokenSource := (\<lambda>store namespace. (None, None))\<rparr>"
  have 1: "getTokenSource example_env ?both ''team-a''
            = (Returned (Some ''jwt:service-account-json'', None),
               [kube_Get_call \<lparr>nn_Name = ''gcp-creds'', nn_Namespace = ''team-a''\<rparr>,
                JWTConfigFromJSON_call ''service-account-json''])"
    using getTokenSource_order
      [where env = example_env and store = ?both and ns = "''team-a''"
         and spec = "\<lparr>spec_Provider = Some \<lparr>GCPSM = Some
                \<lparr>gcpsm_Auth = \<lparr>auth_SecretRef = Some (example_secretRef None),
                               auth_WorkloadIdentity = Some ''sa''\<rparr>,
                 gcpsm_ProjectID = ''p1''\<rparr>\<rparr>\<rparr>"
         and provider = "\<lparr>GCPSM = Some
                \<lparr>gcpsm_Auth = \<lparr>auth_SecretRef = Some (example_secretRef None),
                               auth_WorkloadIdentity = Some ''sa''\<rparr>,
                 gcpsm_ProjectID = ''p1''\<rparr>\<rparr>"
         and gcpsm = "\<lparr>gcpsm_Auth = \<lparr>auth_SecretRef = Some (example_secretRef None),
                               auth_WorkloadIdentity = Some ''sa''\<rparr>,
                 gcpsm_ProjectID = ''p1''\<rparr>"
         and sr = "example_secretRef None"
         and data = "[''key.json'' \<mapsto> ''service-account-json'']"
         and credentials = "''service-account-json''"
         and ?t1.0 = "''jwt:service-account-json''" and sa = "''sa''"
         and ?t2.0 = "''workload-identity''"]
    by (simp add: example_defs ClusterSecretStoreKind_def)
  have 2: "getTokenSource example_env ?wi ''team-a''
            = (Returned (Some ''workload-identity'', None), [workloadIdentity_TokenSource_call])"
    using getTokenSource_order
      [where env = example_env and store = ?wi and ns = "''team-a''" and tr = "[]"
         and ?ts2.0 = "Some ''workload-identity''" and ?e2.0 = None]
    by (simp add: example_defs serviceAccountTokenSource_def)
  have 3: "getTokenSource ?env' ?none ''team-a''
            = (Returned (Some ''default'', None),
               [workloadIdentity_TokenSource_call, DefaultTokenSource_call])"
    using getTokenSource_order
      [where env = ?env' and store = ?none and ns = "''team-a''" and tr = "[]"]
    by (simp add: example_defs serviceAccountTokenSource_def)
  from 1 2 3 show ?thesis by blast
qed

text \<open>
  C8. In a cluster store whose secret reference names a secret: without a namespace in
  the reference, \<open>serviceAccountTokenSource\<close>, and \<open>getTokenSource\<close> with it, returns the
  error of the missing namespace and fetches nothing, in the caller's namespace or
  elsewhere. With a namespace in the reference, the result is decided by what the
  Kubernetes client returns for the named secret in that namespace: the error of the fetch,
  the error of missing credentials, or what the parse of the credentials found there
  gives; the namespace of the caller plays no part.
\<close>

theorem cluster_store_needs_namespace:
  assumes "store_Spec store = Some spec" and "spec_Provider spec = Some provider"
      and "GCPSM provider = Some gcpsm" and "auth_SecretRef (gcpsm_Auth gcpsm) = Some sr"
      and "store_Kind store = ClusterSecretStoreKind"
      and "sks_Name (SecretAccessKey sr) \<noteq> []"
  shows "(sks_Namespace (SecretAccessKey sr) = None \<longrightarrow>
            serviceAccountTokenSource env store ns
              = (Returned (None, Some (ErrorNew errInvalidClusterStoreMissingSAKNamespace)), [])
            \<and> getTokenSource env store ns
              = (Returned (None, Some (ErrorNew errInvalidClusterStoreMissingSAKNamespace)), []))
         \<and> (\<forall>kns. sks_Namespace (SecretAccessKey sr) = Some kns \<longrightarrow>
              serviceAccountTokenSource env store ns
                = (case kube_Get env \<lparr>nn_Name = sks_Name (SecretAccessKey sr),
                                       nn_Namespace = kns\<rparr> of
                     Inl err \<Rightarrow>
                       (Returned (None, Some (Errorf errFetchSAKSecret err)),
                        [kube_Get_call \<lparr>nn_Name = sks_Name (SecretAccessKey sr),
                                        nn_Namespace = kns\<rparr>])
                   | Inr data \<Rightarrow>
                      (case data (sks_Key (SecretAccessKey sr)) of
                         None \<Rightarrow>
                           (Returned (None, Some (ErrorNew errMissingSAK)),
                            [kube_Get_call \<lparr>nn_Name = sks_Name (SecretAccessKey sr),
                                            nn_Namespace = kns\<rparr>])
                       | Some credentials \<Rightarrow>
                          if credentials = [] then
                            (Returned (None, Some (ErrorNew errMissingSAK)),
                             [kube_Get_call \<lparr>nn_Name = sks_Name (SecretAccessKey sr),
                                             nn_Namespace = kns\<rparr>])
                          else
                           (case JWTConfigFromJSON env credentials CloudPlatformRole of
                              Inl err \<Rightarrow>
                                (Returned
                                   (None, Some (Errorf errUnableProcessJSONCredentials err)),
                                 [kube_Get_call \<lparr>nn_Name = sks_Name (SecretAccessKey sr),
                                                 nn_Namespace = kns\<rparr>,
                                  JWTConfigFromJSON_call credentials])
                            | Inr ts \<Rightarrow>
                                (Returned (Some ts, None),
                                 [kube_Get_call \<lparr>nn_Name = sks_Name (SecretAccessKey sr),
                                                 nn_Namespace = kns\<rparr>,
                                  JWTConfigFromJSON_call credentials]))))
              \<and> serviceAccountTokenSource env store ns'
                  = serviceAccountTokenSource env store ns)"
proof (intro conjI impI allI)
  assume "sks_Namespace (SecretAccessKey sr) = None"
  with assms show 1: "serviceAccountTokenSource env store ns
      = (Returned (None, Some (ErrorNew errInvalidClusterStoreMissingSAKNamespace)), [])"
    by (simp add: serviceAccountTokenSource_def Let_def)
  show "getTokenSource env store ns
      = (Returned (None, Some (ErrorNew errInvalidClusterStoreMissingSAKNamespace)), [])"
    by (rule getTokenSource_first [OF 1]) simp
next
  fix kns
  assume k: "sks_Namespace (SecretAccessKey sr) = Some kns"
  with assms show "serviceAccountTokenSource env store ns
                = (case kube_Get env \<lparr>nn_Name = sks_Name (SecretAccessKey sr),
                                       nn_Namespace = kns\<rparr> of
                     Inl err \<Rightarrow>
                       (Returned (None, Some (Errorf errFetchSAKSecret err)),
                        [kube_Get_call \<lparr>nn_Name = sks_Name (SecretAccessKey sr),
                                        nn_Namespace = kns\<rparr>])
                   | Inr data \<Rightarrow>
                      (case data (sks_Key (SecretAccessKey sr)) of
                         None \<Rightarrow>
                           (Returned (None, Some (ErrorNew errMissingSAK)),
                            [kube_Get_call \<lparr>nn_Name = sks_Name (SecretAccessKey sr),
                                            nn_Namespace = kns\<rparr>])
                       | Some credentials \<Rightarrow>
                          if credentials = [] then
                            (Returned (None, Some (ErrorNew errMissingSAK)),
                             [kube_Get_call \<lparr>nn_Name = sks_Name (SecretAccessKey sr),
                                             nn_Namespace = kns\<rparr>])
                          else
                           (case JWTConfigFromJSON env credentials CloudPlatformRole of
                              Inl err \<Rightarrow>
                                (Returned
                                   (None, Some (Errorf errUnableProcessJSONCredentials err)),
                                 [kube_Get_call \<lparr>nn_Name = sks_Name (SecretAccessKey sr),
                                                 nn_Namespace = kns\<rparr>,
                                  JWTConfigFromJSON_call credentials])
                            | Inr ts \<Rightarrow>
                                (Returned (Some ts, None),
                                 [kube_Get_call \<lparr>nn_Name = sks_Name (SecretAccessKey sr),
                                                 nn_Namespace = kns\<rparr>,
                                  JWTConfigFromJSON_call credentials]))))"
    by (simp add: serviceAccountTokenSource_def Let_def split: sum.splits option.splits)
  from assms k show "serviceAccountTokenSource env store ns'
                  = serviceAccountTokenSource env store ns"
    by (simp add: serviceAccountTokenSource_def Let_def)
qed

theorem cluster_store_needs_namespace_witness:
  "serviceAccountTokenSource example_env
     (gcpsm_store ClusterSecretStoreKind (Some (example_secretRef None)) None) ''team-a''
   = (Returned (None, Some (ErrorNew errInvalidClusterStoreMissingSAKNamespace)), [])
   \<and> getTokenSource example_env
       (gcpsm_store ClusterSecretStoreKind (Some (example_secretRef None)) None) ''team-a''
     = (Returned (None, Some (ErrorNew errInvalidClusterStoreMissingSAKNamespace)), [])
   \<and> serviceAccountTokenSource example_env
       (gcpsm_store ClusterSecretStoreKind (Some (example_secretRef (Some ''team-a''))) None)
       ''controller''
     = (Returned (Some ''jwt:service-account-json'', None),
        [kube_Get_call \<lparr>nn_Name = ''gcp-creds'', nn_Namespace = ''team-a''\<rparr>,
         JWTConfigFromJSON_call ''service-account-json''])
   \<and> serviceAccountTokenSource example_env
       (gcpsm_store ClusterSecretStoreKind (Some (example_secretRef (Some ''infra''))) None)
       ''team-a''
     = (Returned (None, Some (Errorf errFetchSAKSecret (ErrorNew ''not found''))),
        [kube_Get_call \<lparr>nn_Name = ''gcp-creds'', nn_Namespace = ''infra''\<rparr>])"
proof -
  let ?gcpsm = "\<lambda>ns. \<lparr>gcpsm_Auth = \<lparr>auth_SecretRef = Some (example_secretRef ns),
                               auth_WorkloadIdentity = None\<rparr>,
                 gcpsm_ProjectID = ''p1''\<rparr>"
  let ?store = "\<lambda>ns. gcpsm_store ClusterSecretStoreKind (Some (example_secretRef ns)) None"
  have 1: "serviceAccountTokenSource example_env (?store None) ''team-a''
   = (Returned (None, Some (ErrorNew errInvalidClusterStoreMissingSAKNamespace)), [])
   \<and> getTokenSource example_env (?store None) ''team-a''
     = (Returned (None, Some (ErrorNew errInvalidClusterStoreMissingSAKNamespace)), [])"
    using cluster_store_needs_namespace
            [of "?store (None)" "\<lparr>spec_Provider = Some \<lparr>GCPSM = Some (?gcpsm (None))\<rparr>\<rparr>"
                "\<lparr>GCPSM = Some (?gcpsm (None))\<rparr>" "?gcpsm (None)" "example_secretRef (None)"
                example_env "''team-a''" "''team-a''"] by (simp add: example_defs)
  have 2: "serviceAccountTokenSource example_env (?store (Some ''team-a'')) ''controller''
     = (Returned (Some ''jwt:service-account-json'', None),
        [kube_Get_call \<lparr>nn_Name = ''gcp-creds'', nn_Namespace = ''team-a''\<rparr>,
         JWTConfigFromJSON_call ''service-account-json''])"
    using cluster_store_needs_namespace
            [of "?store (Some ''team-a'')" "\<lparr>spec_Provider = Some \<lparr>GCPSM = Some (?gcpsm (Some ''team-a''))\<rparr>\<rparr>"
                "\<lparr>GCPSM = Some (?gcpsm (Some ''team-a''))\<rparr>" "?gcpsm (Some ''team-a'')" "example_secretRef (Some ''team-a'')"
                example_env "''controller''" "''controller''"] by (simp add: example_defs)
  have 3: "serviceAccountTokenSource example_env (?store (Some ''infra'')) ''team-a''
     = (Returned (None, Some (Errorf errFetchSAKSecret (ErrorNew ''not found''))),
        [kube_Get_call \<lparr>nn_Name = ''gcp-creds'', nn_Namespace = ''infra''\<rparr>])"
    using cluster_store_needs_namespace
            [of "?store (Some ''infra'')" "\<lparr>spec_Provider = Some \<lparr>GCPSM = Some (?gcpsm (Some ''infra''))\<rparr>\<rparr>"
                "\<lparr>GCPSM = Some (?gcpsm (Some ''infra''))\<rparr>" "?gcpsm (Some ''infra'')" "example_secretRef (Some ''infra'')"
                example_env "''team-a''" "''team-a''"] by (simp add: example_defs)
  from 1 2 3 show ?thesis by blast
qed


subsection \<open>\<open>NewClient\<close> and \<open>Close\<close>\<close>

lemma NewClient_error_lock:
  assumes "NewClient env sm store namespace useMu = (Returned (Some e), sm', useMu', ev)"
  shows "useMu' = useMu \<and> (ev = [] \<or> (useMu' = Unlocked \<and> take 2 ev = [useMu_Lock, useMu_Unlock]))"
  using assms
  by (auto simp: NewClient_def Let_def
        split: option.splits mutex.splits outcome.splits prod.splits sum.splits if_splits)

lemma NewClient_success_lock:
  assumes "NewClient env sm store namespace useMu = (Returned None, sm', useMu', ev)"
  shows "useMu = Unlocked \<and> useMu' = Locked \<and> ev = [useMu_Lock] \<and> SecretManagerClient sm' \<noteq> None"
  using assms
  by (auto simp: NewClient_def Let_def
        split: option.splits mutex.splits outcome.splits prod.splits sum.splits if_splits)

lemma Close_unlocks:
  assumes "SecretManagerClient sm \<noteq> None"
  shows "\<exists>res r'. Close env sm r Locked = (Returned res, r', Unlocked, [useMu_Unlock])"
  using assms
  by (auto simp: Close_def Let_def split: option.splits prod.splits)

text \<open>
  C3. A \<open>NewClient\<close> that returns an error leaves the mutex as it found it: either it has
  not touched it (the check of the store fails before the lock), or it has locked and
  then unlocked it. A \<open>NewClient\<close> that returns success found the mutex unlocked and leaves
  it locked, with no unlock; \<open>Close\<close> of the provider it returns then unlocks it.
\<close>

theorem NewClient_lock_discipline:
  "NewClient env sm store namespace useMu = (out, sm', useMu', ev) \<longrightarrow>
     (\<forall>e. out = Returned (Some e) \<longrightarrow>
        useMu' = useMu
        \<and> (ev = [] \<or> (useMu' = Unlocked \<and> take 2 ev = [useMu_Lock, useMu_Unlock])))
     \<and> (out = Returned None \<longrightarrow>
          useMu = Unlocked \<and> useMu' = Locked \<and> ev = [useMu_Lock]
          \<and> (\<forall>r. \<exists>res r'. Close env sm' r useMu' = (Returned res, r', Unlocked, [useMu_Unlock])))"
proof (intro impI conjI allI)
  fix e
  assume "NewClient env sm store namespace useMu = (out, sm', useMu', ev)" "out = Returned (Some e)"
  then have "NewClient env sm store namespace useMu = (Returned (Some e), sm', useMu', ev)" by simp
  note l = NewClient_error_lock [OF this]
  from l show "useMu' = useMu" by (rule conjunct1)
  from l show "ev = [] \<or> (useMu' = Unlocked \<and> take 2 ev = [useMu_Lock, useMu_Unlock])"
    by (rule conjunct2)
next
  assume "NewClient env sm store namespace useMu = (out, sm', useMu', ev)" "out = Returned None"
  then have "NewClient env sm store namespace useMu = (Returned None, sm', useMu', ev)" by simp
  note s = NewClient_success_lock [OF this]
  from s show "useMu = Unlocked" "useMu' = Locked" "ev = [useMu_Lock]" by simp_all
  fix r
  from s Close_unlocks [of sm' env r]
  show "\<exists>res r'. Close env sm' r useMu' = (Returned res, r', Unlocked, [useMu_Unlock])" by simp
qed

theorem NewClient_lock_discipline_witness:
  "fst (NewClient (example_env\<lparr>Token := (\<lambda>ts. Some (ErrorNew ''expired''))\<rparr>)
          \<lparr>ProjectID = [], SecretManagerClient = None, gClient = None\<rparr>
          (gcpsm_store ''SecretStore'' None None) ''team-a'' Unlocked)
     = Returned (Some (Errorf errUnableGetCredentials (ErrorNew ''expired'')))
   \<and> snd (snd (NewClient (example_env\<lparr>Token := (\<lambda>ts. Some (ErrorNew ''expired''))\<rparr>)
          \<lparr>ProjectID = [], SecretManagerClient = None, gClient = None\<rparr>
          (gcpsm_store ''SecretStore'' None None) ''team-a'' Unlocked))
     = (Unlocked, [useMu_Lock, useMu_Unlock, gClient_Close])
   \<and> fst (NewClient example_env
          \<lparr>ProjectID = [], SecretManagerClient = None, gClient = None\<rparr>
          (gcpsm_store ''SecretStore'' None None) ''team-a'' Unlocked)
     = Returned None
   \<and> snd (snd (NewClient example_env
          \<lparr>ProjectID = [], SecretManagerClient = None, gClient = None\<rparr>
          (gcpsm_store ''SecretStore'' None None) ''team-a'' Unlocked))
     = (Locked, [useMu_Lock])
   \<and> (\<exists>res r'. Close example_env
         (fst (snd (NewClient example_env
            \<lparr>ProjectID = [], SecretManagerClient = None, gClient = None\<rparr>
            (gcpsm_store ''SecretStore'' None None) ''team-a'' Unlocked)))
         \<lparr>calls = [], client_state = ()\<rparr> Locked
       = (Returned res, r', Unlocked, [useMu_Unlock]))"
proof -
  let ?sm = "\<lparr>ProjectID = [], SecretManagerClient = None, gClient = None\<rparr>
               :: unit ProviderGCP"
  let ?store = "gcpsm_store ''SecretStore'' None None"
  let ?bad = "example_env\<lparr>Token := (\<lambda>ts. Some (ErrorNew ''expired''))\<rparr>"
  let ?e = "Errorf errUnableGetCredentials (ErrorNew ''expired'')"
  have gts: "getTokenSource example_env ?store ''team-a''
               = (Returned (Some ''workload-identity'', None), [workloadIdentity_TokenSource_call])"
       "getTokenSource ?bad ?store ''team-a''
               = (Returned (Some ''workload-identity'', None), [workloadIdentity_TokenSource_call])"
    by (simp_all add: getTokenSource_def serviceAccountTokenSource_def example_defs)
  obtain sm1 ev1 mu1 where bad: "NewClient ?bad ?sm ?store ''team-a'' Unlocked
                            = (Returned (Some ?e), sm1, mu1, ev1)"
    and bad_ev: "(mu1, ev1) = (Unlocked, [useMu_Lock, useMu_Unlock, gClient_Close])"
    using gts by (simp add: NewClient_def example_defs)
  obtain sm2 ev2 mu2 where good: "NewClient example_env ?sm ?store ''team-a'' Unlocked
                            = (Returned None, sm2, mu2, ev2)"
    using gts by (simp add: NewClient_def example_defs)
  from NewClient_lock_discipline
         [of ?bad ?sm ?store "''team-a''" Unlocked "Returned (Some ?e)" sm1 mu1 ev1] bad
  have b: "mu1 = Unlocked" by simp
  from NewClient_lock_discipline
         [of example_env ?sm ?store "''team-a''" Unlocked "Returned None" sm2 mu2 ev2] good
  have g: "mu2 = Locked" "ev2 = [useMu_Lock]"
     "\<exists>res r'. Close example_env sm2 \<lparr>calls = [], client_state = ()\<rparr> mu2
                  = (Returned res, r', Unlocked, [useMu_Unlock])"
    by auto
  from bad bad_ev b good g show ?thesis by simp
qed


subsection \<open>The token of the workload identity\<close>

text \<open>
  C9. Without a service account reference, when one of the three variables
  \<open>AZURE_CLIENT_ID\<close>, \<open>AZURE_TENANT_ID\<close> and \<open>AZURE_FEDERATED_TOKEN_FILE\<close> is empty or not set,
  \<open>accessTokenForWorkloadIdentity\<close> returns the error of the missing variables and has
  read no file and exchanged no token; with the three set it goes on to read the token
  file.
\<close>

theorem ambient_identity_needs_three_variables:
  "(Getenv env ''AZURE_CLIENT_ID'' = [] \<or> Getenv env ''AZURE_TENANT_ID'' = []
      \<or> Getenv env ''AZURE_FEDERATED_TOKEN_FILE'' = []
    \<longrightarrow> accessTokenForWorkloadIdentity env acrRegistry envType None namespace
          = (Inl (ErrorNew ''missing environment variables''), []))
   \<and> (Getenv env ''AZURE_CLIENT_ID'' \<noteq> [] \<and> Getenv env ''AZURE_TENANT_ID'' \<noteq> []
      \<and> Getenv env ''AZURE_FEDERATED_TOKEN_FILE'' \<noteq> []
    \<longrightarrow> (\<exists>out rest. accessTokenForWorkloadIdentity env acrRegistry envType None namespace
           = (out, ReadFile_call (Getenv env ''AZURE_FEDERATED_TOKEN_FILE'') # rest)))"
  by (auto simp: accessTokenForWorkloadIdentity_def Let_def split: sum.splits)

theorem ambient_identity_needs_three_variables_witness:
  "accessTokenForWorkloadIdentity
     (webhook_env [(''AZURE_CLIENT_ID'', ''c1''), (''AZURE_FEDERATED_TOKEN_FILE'', ''/var/run/token'')])
     ''myregistry.azurecr.io'' ''PublicCloud'' None ''default''
   = (Inl (ErrorNew ''missing environment variables''), [])
   \<and> (\<exists>out rest. accessTokenForWorkloadIdentity
         (webhook_env [(''AZURE_CLIENT_ID'', ''c1''), (''AZURE_TENANT_ID'', ''t1''),
                       (''AZURE_FEDERATED_TOKEN_FILE'', ''/var/run/token'')])
         ''myregistry.azurecr.io'' ''PublicCloud'' None ''default''
       = (out, ReadFile_call ''/var/run/token'' # rest))"
  using ambient_identity_needs_three_variables
          [of "webhook_env [(''AZURE_CLIENT_ID'', ''c1''),
                            (''AZURE_FEDERATED_TOKEN_FILE'', ''/var/run/token'')]"
              "''myregistry.azurecr.io''" "''PublicCloud''" "''default''"]
        ambient_identity_needs_three_variables
          [of "webhook_env [(''AZURE_CLIENT_ID'', ''c1''), (''AZURE_TENANT_ID'', ''t1''),
                            (''AZURE_FEDERATED_TOKEN_FILE'', ''/var/run/token'')]"
              "''myregistry.azurecr.io''" "''PublicCloud''" "''default''"]
  by (simp add: webhook_env_def)

end
